theory Spec2Isabelle
  imports Main "HOL-Library.Word" "HOL-Library.Monad_Syntax"
begin

section \<open>Data model\<close>

text \<open>
  Go's \<open>int\<close> on the 64-bit targets of the service and \<open>time.Duration\<close> (an \<open>int64\<close> of
  nanoseconds) are 64-bit words read as signed numbers: \<open>+\<close> and \<open>*\<close> wrap, comparisons are
  the signed ones (\<open><s\<close>, \<open>\<le>s\<close>).
\<close>

type_synonym go_int = "64 word"
type_synonym Duration = "64 word"

text \<open>
  A \<open>time.Time\<close> as it comes out of the JSON decoder: the instant in nanoseconds since the
  Unix epoch and the offset of its zone in seconds east of UTC (no monotonic reading).
\<close>

record Time =
  unixNano :: int
  zoneOffset :: int

text \<open>\<open>models.ConversionJob\<close>, field by field.\<close>

record ConversionJob =
  ConversionID :: go_int
  FileID :: go_int
  FileGUID :: string
  UserID :: go_int
  InputS3Path :: string
  OutputS3Path :: string
  InputExtension :: string
  RetryCount :: go_int
  MaxRetries :: go_int
  CreatedAt :: Time
  Timeout :: go_int

subsection \<open>Durations and the clock\<close>

definition time_Second :: Duration where
  "time_Second = 1000000000"

definition time_Minute :: Duration where
  "time_Minute = 60 * time_Second"

definition maxDuration :: int where
  "maxDuration = 2 ^ 63 - 1"

definition minDuration :: int where
  "minDuration = - (2 ^ 63)"

text \<open>
  \<open>Time.Sub\<close>: the difference of two instants as a Duration, saturating at the largest and
  the smallest Duration. \<open>time.Since t\<close> is \<open>time.Now().Sub(t)\<close>; the reading of the clock is
  the argument \<open>now\<close>.
\<close>

definition time_Sub :: "int \<Rightarrow> int \<Rightarrow> Duration" where
  "time_Sub t u =
     (let d = t - u
      in if maxDuration < d then word_of_int maxDuration
         else if d < minDuration then word_of_int minDuration
         else word_of_int d)"

definition time_Since :: "int \<Rightarrow> Time \<Rightarrow> Duration" where
  "time_Since now t = time_Sub now (unixNano t)"

subsection \<open>The library and the platform\<close>

text \<open>
  What the program takes from the Go library and the platform, as parameters of the model:
  \<^item> \<open>json_Unmarshal\<close>: \<open>json.Unmarshal\<close> into a \<open>ConversionJob\<close>, \<open>Inl\<close> the error text;
  \<^item> \<open>json_Marshal\<close>: \<open>json.Marshal\<close> of a \<open>ConversionJob\<close>, \<open>Inl\<close> the error text;
  \<^item> \<open>float_overflow\<close>: the \<open>int64\<close> that the conversion of the float64 \<open>2 ^ k\<close> yields when
    \<open>k > 62\<close>, where the language leaves the result to the implementation;
  \<^item> \<open>format_RFC3339\<close>: \<open>Time.Format(time.RFC3339)\<close> of a reading of the clock.
\<close>

record Lib =
  json_Unmarshal :: "string \<Rightarrow> string + ConversionJob"
  json_Marshal :: "ConversionJob \<Rightarrow> string + string"
  float_overflow :: "go_int \<Rightarrow> Duration"
  format_RFC3339 :: "int \<Rightarrow> string"

section \<open>The status store (services/database.go)\<close>

record Metadata =
  worker_id :: go_int
  duration_ms :: "64 word"

text \<open>A row of \<open>file_conversions\<close>: the columns the service writes.\<close>

record FileConversion =
  status :: string
  updated_at :: int
  started_at :: "int option"
  completed_at :: "int option"
  output_s3_path :: "string option"
  metadata :: "Metadata option"
  error_message :: "string option"
  retry_count :: int

text \<open>
  The database: the rows by id, and the outcome of each statement still to come
  (\<open>Some e\<close>: the statement fails with error \<open>e\<close> and changes nothing; past the end of
  the list every statement succeeds).
\<close>

record Database =
  rows :: "go_int \<rightharpoonup> FileConversion"
  faults :: "string option list"

text \<open>
  \<open>db.ExecContext\<close> of an \<open>UPDATE ... WHERE id = cid\<close>: an update of no row is not an
  error.
\<close>

definition ExecContext ::
  "Database \<Rightarrow> go_int \<Rightarrow> (FileConversion \<Rightarrow> FileConversion) \<Rightarrow> Database \<times> string option" where
  "ExecContext d cid upd =
     (case faults d of
        Some e # fs \<Rightarrow> (d\<lparr>faults := fs\<rparr>, Some e)
      | _ \<Rightarrow>
          (d\<lparr>rows := (case rows d cid of
                         None \<Rightarrow> rows d
                       | Some r \<Rightarrow> (rows d)(cid \<mapsto> upd r)),
             faults := tl (faults d)\<rparr>, None))"

definition UpdateConversionStatus ::
  "Database \<Rightarrow> int \<Rightarrow> go_int \<Rightarrow> string \<Rightarrow> string \<Rightarrow> Metadata option
     \<Rightarrow> Database \<times> string option" where
  "UpdateConversionStatus d now cid st outputPath md =
     ExecContext d cid (\<lambda>r.
       let r1 = r\<lparr>status := st, updated_at := now\<rparr>;
           r2 = (if st = ''processing'' then r1\<lparr>started_at := Some now\<rparr> else r1)
       in if st = ''completed''
          then (let r3 = r2\<lparr>completed_at := Some now, output_s3_path := Some outputPath\<rparr>
                in case md of None \<Rightarrow> r3 | Some m \<Rightarrow> r3\<lparr>metadata := Some m\<rparr>)
          else r2)"

definition UpdateConversionError ::
  "Database \<Rightarrow> int \<Rightarrow> go_int \<Rightarrow> string \<Rightarrow> Database \<times> string option" where
  "UpdateConversionError d now cid errorMsg =
     ExecContext d cid (\<lambda>r. r\<lparr>error_message := Some errorMsg, updated_at := now\<rparr>)"

definition IncrementRetryCount ::
  "Database \<Rightarrow> int \<Rightarrow> go_int \<Rightarrow> Database \<times> string option" where
  "IncrementRetryCount d now cid =
     ExecContext d cid (\<lambda>r. r\<lparr>retry_count := retry_count r + 1, updated_at := now\<rparr>)"

section \<open>The queue (Redis lists and hashes)\<close>

text \<open>
  A Redis list is a list whose first element is the head (the left end). \<open>LPUSH\<close> adds at
  the head; \<open>LREM key count v\<close> with \<open>count > 0\<close> removes the first \<open>count\<close> elements
  equal to \<open>v\<close>, from the head, and with \<open>count = 0\<close> all of them; \<open>LRANGE key 0 -1\<close> is the
  whole list. The commands are those of a server that is reached: the worker drops the
  result of every \<open>LREM\<close>, \<open>LPUSH\<close> and \<open>HSET\<close>; the two calls whose error it looks at, the
  claim and the \<open>LRANGE\<close> of the sweep, take that error as an argument.
\<close>

definition LPush :: "string list \<Rightarrow> string \<Rightarrow> string list" where
  "LPush l v = v # l"

fun LRem :: "string list \<Rightarrow> nat \<Rightarrow> string \<Rightarrow> string list" where
  "LRem l 0 v = filter (\<lambda>x. x \<noteq> v) l"
| "LRem [] (Suc n) v = []"
| "LRem (x # xs) (Suc n) v =
     (if x = v then (if n = 0 then xs else LRem xs n v) else x # LRem xs (Suc n) v)"

definition LRange_all :: "string list \<Rightarrow> string list" where
  "LRange_all l = l"

text \<open>\<open>HSET key field value ...\<close>: the named fields are overwritten, the others kept.\<close>

definition HSet :: "(string \<rightharpoonup> string) \<Rightarrow> (string \<times> string) list \<Rightarrow> (string \<rightharpoonup> string)" where
  "HSet h kvs = h ++ map_of kvs"

section \<open>The state of the service\<close>

datatype LogEvent =
    LogStarting go_int
  | LogShuttingDown go_int
  | LogRedisError go_int string
  | LogParseFailed go_int string
  | LogProcessing go_int go_int string
  | LogDbStatusFailed go_int string
  | LogDbCompletedFailed go_int string
  | LogCompleted go_int go_int Duration
  | LogFailed go_int go_int string
  | LogScheduledRetry go_int go_int go_int go_int Duration
  | LogMovedToFailed go_int go_int go_int
  | LogRecoveryStarting
  | LogRecoveryShuttingDown
  | LogRecoveryRangeFailed string
  | LogRecovered go_int

text \<open>
  A timer started by \<open>time.AfterFunc\<close> that has not fired yet: the delay and what its
  function needs when it runs (the entry to push, and the worker and job of its log line).
\<close>

record Timer =
  delay :: Duration
  newJobJSON :: string
  timerWorker :: go_int
  timerJob :: ConversionJob

text \<open>The machine of the worker: its scratch files and its clock (nanoseconds).\<close>

record Host =
  files :: "string set"
  clock :: int

text \<open>
  The three lists are the keys \<open>PendingQueue\<close>, \<open>ProcessingQueue\<close> and \<open>FailedQueue\<close> of the
  configuration (three different keys); \<open>statusHash cid\<close> is the hash at
  \<open>conversion:status:<cid>\<close>.
\<close>

record World =
  pending :: "string list"
  processing :: "string list"
  failed :: "string list"
  statusHash :: "go_int \<Rightarrow> (string \<rightharpoonup> string)"
  db :: Database
  timers :: "Timer list"
  host :: Host
  logs :: "LogEvent list"

definition logPrintf :: "LogEvent \<Rightarrow> World \<Rightarrow> World" where
  "logPrintf e w = w\<lparr>logs := logs w @ [e]\<rparr>"

section \<open>worker/pool.go\<close>

subsection \<open>The backoff delay of \<open>handleJobFailure\<close>\<close>

text \<open>
  \<open>time.Duration(math.Pow(2, float64(k)))\<close>: for \<open>0 \<le> k \<le> 62\<close> the power is the exact
  float64 \<open>2 ^ k\<close> and converts to the same integer; for \<open>k < 0\<close> it is below 1 and truncates
  to 0; above 62 it does not fit an \<open>int64\<close> and the result is the platform's.
\<close>

definition pow2_Duration :: "Lib \<Rightarrow> go_int \<Rightarrow> Duration" where
  "pow2_Duration lib k =
     (if k <s 0 then 0
      else if k \<le>s 62 then 2 ^ unat k
      else float_overflow lib k)"

definition backoffDelay :: "Lib \<Rightarrow> go_int \<Rightarrow> Duration" where
  "backoffDelay lib k =
     (let d = pow2_Duration lib k * time_Second
      in if 30 * time_Second <s d then 30 * time_Second else d)"

subsection \<open>\<open>handleJobFailure\<close>\<close>

text \<open>
  \<open>newJobJSON, _ := json.Marshal(job)\<close>: the error is dropped, and the bytes are empty
  when there is one.
\<close>

definition marshalled :: "Lib \<Rightarrow> ConversionJob \<Rightarrow> string" where
  "marshalled lib job = (case json_Marshal lib job of Inl e \<Rightarrow> [] | Inr s \<Rightarrow> s)"

definition handleJobFailure ::
  "Lib \<Rightarrow> World \<Rightarrow> go_int \<Rightarrow> ConversionJob \<Rightarrow> string \<Rightarrow> string \<Rightarrow> World" where
  "handleJobFailure lib w0 workerID job jobJSON errorMsg =
     (let w1 = logPrintf (LogFailed workerID (ConversionID job) errorMsg) w0;
          w2 = w1\<lparr>processing := LRem (processing w1) 1 jobJSON\<rparr>;
          w3 = w2\<lparr>db := fst (IncrementRetryCount (db w2) (clock (host w2)) (ConversionID job))\<rparr>
      in if RetryCount job <s MaxRetries job
         then
           (let job' = job\<lparr>RetryCount := RetryCount job + 1\<rparr>;
                new = marshalled lib job';
                d = backoffDelay lib (RetryCount job')
            in w3\<lparr>timers := timers w3 @
                   [\<lparr>delay = d, newJobJSON = new, timerWorker = workerID, timerJob = job'\<rparr>]\<rparr>)
         else
           (let w4 = w3\<lparr>failed := LPush (failed w3) jobJSON\<rparr>;
                w5 = w4\<lparr>db := fst (UpdateConversionStatus (db w4) (clock (host w4))
                                      (ConversionID job) ''failed'' [] None)\<rparr>;
                w6 = w5\<lparr>db := fst (UpdateConversionError (db w5) (clock (host w5))
                                      (ConversionID job) errorMsg)\<rparr>;
                w7 = w6\<lparr>statusHash := (statusHash w6)
                        (ConversionID job := HSet (statusHash w6 (ConversionID job))
                           [(''status'', ''failed''), (''error'', errorMsg),
                            (''updated_at'', format_RFC3339 lib (clock (host w6)))])\<rparr>
            in logPrintf (LogMovedToFailed workerID (ConversionID job) (MaxRetries job)) w7))"



subsection \<open>services/s3.go: \<open>Cleanup\<close>\<close>

text \<open>
  \<open>os.Remove\<close> on the scratch files: a file that is there is removed, one that is not is
  an error (\<open>ENOENT\<close>) and nothing changes.
\<close>

definition os_Remove :: "string set \<Rightarrow> string \<Rightarrow> string set \<times> string option" where
  "os_Remove fs name =
     (if name \<in> fs then (fs - {name}, None)
      else (fs, Some (''remove '' @ name @ '': no such file or directory'')))"

definition Cleanup :: "string set \<Rightarrow> string \<Rightarrow> string set \<times> string option" where
  "Cleanup fs path = (if path = [] then (fs, None) else os_Remove fs path)"

subsection \<open>\<open>processJob\<close>\<close>

text \<open>
  The storage and conversion adapters reach remote services; they are parameters of the
  model. Each takes the host and the deadline of the attempt and gives its result and the
  host afterwards (files written, time passed): \<open>Inl\<close> the error, \<open>Inr\<close> the local path.
\<close>

record Adapters =
  Download :: "Host \<Rightarrow> int \<Rightarrow> string \<Rightarrow> string \<Rightarrow> string \<Rightarrow> (string + string) \<times> Host"
  ConvertToPDFA :: "Host \<Rightarrow> int \<Rightarrow> string \<Rightarrow> string \<Rightarrow> (string + string) \<times> Host"
  Upload :: "Host \<Rightarrow> int \<Rightarrow> string \<Rightarrow> string \<Rightarrow> string option \<times> Host"

text \<open>\<open>defer p.s3Svc.Cleanup(path)\<close>: runs when \<open>processJob\<close> returns; its result is dropped.\<close>

definition deferCleanup :: "string \<Rightarrow> World \<Rightarrow> World" where
  "deferCleanup path w = w\<lparr>host := (host w)\<lparr>files := fst (Cleanup (files (host w)) path)\<rparr>\<rparr>"

text \<open>\<open>Duration.Milliseconds\<close>: the signed quotient by \<open>10 ^ 6\<close>, truncated towards zero.\<close>

definition Milliseconds :: "Duration \<Rightarrow> 64 word" where
  "Milliseconds d = word_of_int (sgn (sint d) * (\<bar>sint d\<bar> div 1000000))"

text \<open>
  The end of \<open>processJob\<close> once download, conversion and upload have succeeded: the status
  \<open>completed\<close> in the database (a failure is logged) and in the status hash, and the
  removal of the entry from the processing list.
\<close>

definition settleCompleted :: "Lib \<Rightarrow> World \<Rightarrow> go_int \<Rightarrow> ConversionJob \<Rightarrow> string \<Rightarrow> int \<Rightarrow> World" where
  "settleCompleted lib w0 workerID job jobJSON startTime =
     (let duration = time_Sub (clock (host w0)) startTime;
          md = \<lparr>worker_id = workerID, duration_ms = Milliseconds duration\<rparr>;
          (d1, err1) = UpdateConversionStatus (db w0) (clock (host w0)) (ConversionID job)
                          ''completed'' (OutputS3Path job) (Some md);
          w1 = (case err1 of
                  None \<Rightarrow> w0\<lparr>db := d1\<rparr>
                | Some e \<Rightarrow> logPrintf (LogDbCompletedFailed workerID e) (w0\<lparr>db := d1\<rparr>));
          w2 = w1\<lparr>statusHash := (statusHash w1)
                  (ConversionID job := HSet (statusHash w1 (ConversionID job))
                     [(''status'', ''completed''),
                      (''updated_at'', format_RFC3339 lib (clock (host w1)))])\<rparr>;
          w3 = w2\<lparr>processing := LRem (processing w2) 1 jobJSON\<rparr>
      in logPrintf (LogCompleted workerID (ConversionID job) duration) w3)"

definition processJob ::
  "Lib \<Rightarrow> Adapters \<Rightarrow> World \<Rightarrow> go_int \<Rightarrow> ConversionJob \<Rightarrow> string \<Rightarrow> World" where
  "processJob lib ad w0 workerID job jobJSON =
     (let w1 = logPrintf (LogProcessing workerID (ConversionID job) (FileGUID job)) w0;
          (d1, err1) = UpdateConversionStatus (db w1) (clock (host w1)) (ConversionID job)
                          ''processing'' [] None;
          w2 = (case err1 of
                  None \<Rightarrow> w1\<lparr>db := d1\<rparr>
                | Some e \<Rightarrow> logPrintf (LogDbStatusFailed workerID e) (w1\<lparr>db := d1\<rparr>));
          deadline = clock (host w2) + sint (Timeout job * time_Second);
          startTime = clock (host w2);
          (r1, h1) = Download ad (host w2) deadline (InputS3Path job) (FileGUID job)
                        (InputExtension job);
          w3 = w2\<lparr>host := h1\<rparr>
      in case r1 of
           Inl e \<Rightarrow> handleJobFailure lib w3 workerID job jobJSON (''S3 download failed: '' @ e)
         | Inr localInputPath \<Rightarrow>
             deferCleanup localInputPath
               (let (r2, h2) = ConvertToPDFA ad (host w3) deadline localInputPath
                                 (InputExtension job);
                    w4 = w3\<lparr>host := h2\<rparr>
                in case r2 of
                     Inl e \<Rightarrow>
                       handleJobFailure lib w4 workerID job jobJSON
                         (''Office conversion failed: '' @ e)
                   | Inr localOutputPath \<Rightarrow>
                       deferCleanup localOutputPath
                         (let (r3, h3) = Upload ad (host w4) deadline localOutputPath
                                           (OutputS3Path job);
                              w5 = w4\<lparr>host := h3\<rparr>
                          in case r3 of
                               Some e \<Rightarrow>
                                 handleJobFailure lib w5 workerID job jobJSON
                                   (''S3 upload failed: '' @ e)
                             | None \<Rightarrow>
                                 settleCompleted lib w5 workerID job jobJSON startTime)))"

subsection \<open>\<open>StartWorker\<close>\<close>

datatype Reply = Value string | RedisNil | RedisError string

definition advance :: "Duration \<Rightarrow> World \<Rightarrow> World" where
  "advance d w = w\<lparr>host := (host w)\<lparr>clock := clock (host w) + sint d\<rparr>\<rparr>"

text \<open>
  \<open>BRPOPLPUSH pending processing 30\<close>, one command of the server: the tail of the pending
  list becomes the head of the processing list and is the reply; on an empty pending list
  the command waits for its 30 seconds and replies nil. \<open>connErr\<close> is the transport error
  of the call, when there is one.
\<close>

definition BRPopLPush :: "string option \<Rightarrow> World \<Rightarrow> Reply \<times> World" where
  "BRPopLPush connErr w =
     (case connErr of
        Some e \<Rightarrow> (RedisError e, w)
      | None \<Rightarrow>
          (if pending w = [] then (RedisNil, advance (30 * time_Second) w)
           else (Value (last (pending w)),
                 w\<lparr>pending := butlast (pending w),
                   processing := LPush (processing w) (last (pending w))\<rparr>)))"

text \<open>The \<open>default\<close> branch of the loop of \<open>StartWorker\<close>: one claim and what follows it.\<close>

definition workerIteration ::
  "Lib \<Rightarrow> Adapters \<Rightarrow> string option \<Rightarrow> World \<Rightarrow> go_int \<Rightarrow> World" where
  "workerIteration lib ad connErr w0 workerID =
     (case BRPopLPush connErr w0 of
        (RedisNil, w1) \<Rightarrow> w1
      | (RedisError e, w1) \<Rightarrow>
          advance (5 * time_Second) (logPrintf (LogRedisError workerID e) w1)
      | (Value result, w1) \<Rightarrow>
          (case json_Unmarshal lib result of
             Inl e \<Rightarrow>
               (let w2 = logPrintf (LogParseFailed workerID e) w1
                in w2\<lparr>processing := LRem (processing w2) 1 result\<rparr>)
           | Inr job \<Rightarrow> processJob lib ad w1 workerID job result))"

text \<open>
  The loop, over what each of its rounds meets: the context done, or the transport error
  of the claim (if any). \<open>None\<close>: the loop has not returned after these rounds.
\<close>

datatype Round = CtxDone | Claim "string option"

fun workerLoop :: "Lib \<Rightarrow> Adapters \<Rightarrow> Round list \<Rightarrow> World \<Rightarrow> go_int \<Rightarrow> World option" where
  "workerLoop lib ad [] w workerID = None"
| "workerLoop lib ad (CtxDone # rs) w workerID = Some (logPrintf (LogShuttingDown workerID) w)"
| "workerLoop lib ad (Claim connErr # rs) w workerID =
     workerLoop lib ad rs (workerIteration lib ad connErr w workerID) workerID"

definition StartWorker :: "Lib \<Rightarrow> Adapters \<Rightarrow> Round list \<Rightarrow> World \<Rightarrow> go_int \<Rightarrow> World option" where
  "StartWorker lib ad rs w workerID = workerLoop lib ad rs (logPrintf (LogStarting workerID) w) workerID"

subsection \<open>\<open>recoverStaleJobs\<close>\<close>

text \<open>The body of the loop over the snapshot of the processing list.\<close>

definition recoverJob :: "Lib \<Rightarrow> World \<times> go_int \<Rightarrow> string \<Rightarrow> World \<times> go_int" where
  "recoverJob lib s jobJSON =
     (let (w0, recovered) = s
      in case json_Unmarshal lib jobJSON of
           Inl e \<Rightarrow> (w0, recovered)
         | Inr job \<Rightarrow>
             (if 5 * time_Minute <s time_Since (clock (host w0)) (CreatedAt job)
              then
                (let w1 = w0\<lparr>processing := LRem (processing w0) 1 jobJSON\<rparr>
                 in if RetryCount job <s MaxRetries job
                    then
                      (let job' = job\<lparr>RetryCount := RetryCount job + 1\<rparr>;
                           new = marshalled lib job';
                           w2 = w1\<lparr>pending := LPush (pending w1) new\<rparr>;
                           w3 = w2\<lparr>db := fst (IncrementRetryCount (db w2) (clock (host w2))
                                                 (ConversionID job))\<rparr>
                       in (w3, recovered + 1))
                    else
                      (let w2 = w1\<lparr>failed := LPush (failed w1) jobJSON\<rparr>;
                           w3 = w2\<lparr>db := fst (UpdateConversionStatus (db w2) (clock (host w2))
                                                 (ConversionID job) ''failed'' [] None)\<rparr>;
                           w4 = w3\<lparr>db := fst (UpdateConversionError (db w3) (clock (host w3))
                                                 (ConversionID job)
                                                 ''Job timeout - exceeded 5 minutes'')\<rparr>
                       in (w4, recovered)))
              else (w0, recovered)))"

text \<open>\<open>rangeErr\<close> is the error of the \<open>LRANGE\<close> call, when there is one.\<close>

definition recoverStaleJobs :: "Lib \<Rightarrow> string option \<Rightarrow> World \<Rightarrow> World" where
  "recoverStaleJobs lib rangeErr w =
     (case rangeErr of
        Some e \<Rightarrow> logPrintf (LogRecoveryRangeFailed e) w
      | None \<Rightarrow>
          (let jobs = LRange_all (processing w);
               (w', recovered) = foldl (recoverJob lib) (w, 0) jobs
           in if 0 <s recovered then logPrintf (LogRecovered recovered) w' else w'))"

text \<open>
  \<open>RecoveryLoop\<close>, over what each round of its \<open>select\<close> meets: the context done, or a
  tick of the 5-minute ticker (with the error of the \<open>LRANGE\<close> call of that sweep, if any).
  \<open>None\<close>: the loop has not returned after these rounds.
\<close>

datatype RecoveryRound = RecoveryDone | Tick "string option"

fun recoveryRounds :: "Lib \<Rightarrow> RecoveryRound list \<Rightarrow> World \<Rightarrow> World option" where
  "recoveryRounds lib [] w = None"
| "recoveryRounds lib (RecoveryDone # rs) w = Some (logPrintf LogRecoveryShuttingDown w)"
| "recoveryRounds lib (Tick rangeErr # rs) w =
     recoveryRounds lib rs (recoverStaleJobs lib rangeErr (advance (5 * time_Minute) w))"

definition RecoveryLoop :: "Lib \<Rightarrow> RecoveryRound list \<Rightarrow> World \<Rightarrow> World option" where
  "RecoveryLoop lib rs w = recoveryRounds lib rs (logPrintf LogRecoveryStarting w)"

section \<open>encoding/json, as the worker uses it\<close>

text \<open>
  The two calls of the worker into Go's \<open>encoding/json\<close>, for the struct
  \<open>models.ConversionJob\<close>: \<open>json.Unmarshal\<close> (scanning, validity, decoding of the members
  into the fields by their tags) and \<open>json.Marshal\<close>. The functions of the worker take the
  library as the parameter \<open>lib\<close>, so what is proved of them holds for any library; this
  one is the library of the examples. The texts of the errors are shortened.
\<close>

subsection \<open>Scanning\<close>

datatype Token =
    TLBrace | TRBrace | TLBracket | TRBracket | TColon | TComma
  | TString string
  | TNumber string
  | TTrue | TFalse | TNull

datatype NumPhase = NNeg | NZero | NInt | NDot | NFrac | NE | NESign | NExp

datatype LexState =
    LStart
  | LStr string
  | LStrEsc string
  | LStrU nat string
  | LNum NumPhase string
  | LLit string Token

definition isSpace :: "char \<Rightarrow> bool" where
  "isSpace c \<longleftrightarrow> c \<in> set [CHR '' '', CHR 0x09, CHR 0x0A, CHR 0x0D]"

definition isDigit :: "char \<Rightarrow> bool" where
  "isDigit c \<longleftrightarrow> c \<in> set ''0123456789''"

definition isHex :: "char \<Rightarrow> bool" where
  "isHex c \<longleftrightarrow> c \<in> set ''0123456789abcdefABCDEF''"

fun numStep :: "NumPhase \<Rightarrow> char \<Rightarrow> NumPhase option" where
  "numStep NNeg c = (if c = CHR ''0'' then Some NZero else if isDigit c then Some NInt else None)"
| "numStep NZero c =
     (if c = CHR ''.'' then Some NDot else if c \<in> set ''eE'' then Some NE else None)"
| "numStep NInt c =
     (if isDigit c then Some NInt else if c = CHR ''.'' then Some NDot
      else if c \<in> set ''eE'' then Some NE else None)"
| "numStep NDot c = (if isDigit c then Some NFrac else None)"
| "numStep NFrac c =
     (if isDigit c then Some NFrac else if c \<in> set ''eE'' then Some NE else None)"
| "numStep NE c =
     (if c \<in> set ''+-'' then Some NESign else if isDigit c then Some NExp else None)"
| "numStep NESign c = (if isDigit c then Some NExp else None)"
| "numStep NExp c = (if isDigit c then Some NExp else None)"

definition numFinal :: "NumPhase \<Rightarrow> bool" where
  "numFinal ph \<longleftrightarrow> ph \<in> set [NZero, NInt, NFrac, NExp]"

datatype Action = Skip | Emit Token | Enter LexState | Bad

definition startAction :: "char \<Rightarrow> Action" where
  "startAction c =
     (if isSpace c then Skip
      else if c = CHR ''{'' then Emit TLBrace
      else if c = CHR ''}'' then Emit TRBrace
      else if c = CHR ''['' then Emit TLBracket
      else if c = CHR '']'' then Emit TRBracket
      else if c = CHR '':'' then Emit TColon
      else if c = CHR '','' then Emit TComma
      else if c = CHR 0x22 then Enter (LStr [])
      else if c = CHR ''-'' then Enter (LNum NNeg [c])
      else if c = CHR ''0'' then Enter (LNum NZero [c])
      else if isDigit c then Enter (LNum NInt [c])
      else if c = CHR ''t'' then Enter (LLit ''rue'' TTrue)
      else if c = CHR ''f'' then Enter (LLit ''alse'' TFalse)
      else if c = CHR ''n'' then Enter (LLit ''ull'' TNull)
      else Bad)"

fun lex :: "LexState \<Rightarrow> string \<Rightarrow> Token list option" where
  "lex LStart [] = Some []"
| "lex LStart (c # cs) =
     (case startAction c of
        Skip \<Rightarrow> lex LStart cs
      | Emit t \<Rightarrow> map_option ((#) t) (lex LStart cs)
      | Enter st \<Rightarrow> lex st cs
      | Bad \<Rightarrow> None)"
| "lex (LStr acc) [] = None"
| "lex (LStr acc) (c # cs) =
     (if c = CHR 0x22 then map_option ((#) (TString (rev acc))) (lex LStart cs)
      else if c = CHR 0x5C then lex (LStrEsc (c # acc)) cs
      else if (of_char c :: nat) < 0x20 then None
      else lex (LStr (c # acc)) cs)"
| "lex (LStrEsc acc) [] = None"
| "lex (LStrEsc acc) (c # cs) =
     (if c \<in> set [CHR 0x22, CHR 0x5C, CHR ''/'', CHR ''b'', CHR ''f'', CHR ''n'', CHR ''r'', CHR ''t'']
      then lex (LStr (c # acc)) cs
      else if c = CHR ''u'' then lex (LStrU 4 (c # acc)) cs
      else None)"
| "lex (LStrU n acc) [] = None"
| "lex (LStrU n acc) (c # cs) =
     (if isHex c then (if n \<le> 1 then lex (LStr (c # acc)) cs else lex (LStrU (n - 1) (c # acc)) cs)
      else None)"
| "lex (LNum ph acc) [] = (if numFinal ph then Some [TNumber (rev acc)] else None)"
| "lex (LNum ph acc) (c # cs) =
     (case numStep ph c of
        Some ph' \<Rightarrow> lex (LNum ph' (c # acc)) cs
      | None \<Rightarrow>
          (if numFinal ph
           then map_option ((#) (TNumber (rev acc)))
                  (case startAction c of
                     Skip \<Rightarrow> lex LStart cs
                   | Emit t \<Rightarrow> map_option ((#) t) (lex LStart cs)
                   | Enter st \<Rightarrow> lex st cs
                   | Bad \<Rightarrow> None)
           else None))"
| "lex (LLit xs t) [] = None"
| "lex (LLit xs t) (c # cs) =
     (case xs of
        [] \<Rightarrow> None
      | x # xs' \<Rightarrow>
          (if c \<noteq> x then None
           else if xs' = [] then map_option ((#) t) (lex LStart cs)
           else lex (LLit xs' t) cs))"

subsection \<open>Validity\<close>

datatype Ctx = InObject | InArray

datatype Expect = XValue | XObjFirst | XObjKey | XObjColon | XArrFirst | XAfter

definition isScalar :: "Token \<Rightarrow> bool" where
  "isScalar t = (case t of TString x \<Rightarrow> True | TNumber x \<Rightarrow> True | TTrue \<Rightarrow> True
                 | TFalse \<Rightarrow> True | TNull \<Rightarrow> True | _ \<Rightarrow> False)"

definition isKey :: "Token \<Rightarrow> bool" where
  "isKey t = (case t of TString x \<Rightarrow> True | _ \<Rightarrow> False)"

fun valid :: "Expect \<Rightarrow> Ctx list \<Rightarrow> Token list \<Rightarrow> bool" where
  "valid x st [] = (x = XAfter \<and> st = [])"
| "valid x st (t # ts) =
     (case x of
        XValue \<Rightarrow>
          (if t = TLBrace then valid XObjFirst (InObject # st) ts
           else if t = TLBracket then valid XArrFirst (InArray # st) ts
           else if isScalar t then valid XAfter st ts
           else False)
      | XArrFirst \<Rightarrow>
          (if t = TRBracket then valid XAfter (tl st) ts
           else if t = TLBrace then valid XObjFirst (InObject # st) ts
           else if t = TLBracket then valid XArrFirst (InArray # st) ts
           else if isScalar t then valid XAfter st ts
           else False)
      | XObjFirst \<Rightarrow>
          (if t = TRBrace then valid XAfter (tl st) ts
           else if isKey t then valid XObjColon st ts
           else False)
      | XObjKey \<Rightarrow> (if isKey t then valid XObjColon st ts else False)
      | XObjColon \<Rightarrow> (if t = TColon then valid XValue st ts else False)
      | XAfter \<Rightarrow>
          (case st of
             [] \<Rightarrow> False
           | InObject # st' \<Rightarrow>
               (if t = TComma then valid XObjKey st ts
                else if t = TRBrace then valid XAfter st' ts
                else False)
           | InArray # st' \<Rightarrow>
               (if t = TComma then valid XValue st ts
                else if t = TRBracket then valid XAfter st' ts
                else False)))"

text \<open>\<open>checkValid\<close>: the tokens of a text that is one JSON value, \<open>None\<close> on a syntax error.\<close>

definition checkValid :: "string \<Rightarrow> Token list option" where
  "checkValid s =
     (case lex LStart s of
        None \<Rightarrow> None
      | Some ts \<Rightarrow> if valid XValue [] ts then Some ts else None)"

subsection \<open>String literals\<close>

definition replacementChar :: string where
  "replacementChar = [CHR 0xEF, CHR 0xBF, CHR 0xBD]"

definition inRange :: "nat \<Rightarrow> nat \<Rightarrow> char \<Rightarrow> bool" where
  "inRange lo hi c \<longleftrightarrow> lo \<le> of_char c \<and> (of_char c :: nat) \<le> hi"

text \<open>
  The length of the well-formed UTF-8 sequence at the head of the bytes, 0 when there is
  none (\<open>utf8.DecodeRune\<close> then gives the replacement character and size 1).
\<close>

definition utf8Len :: "string \<Rightarrow> nat" where
  "utf8Len bs =
     (case bs of
        [] \<Rightarrow> 0
      | b0 # r \<Rightarrow>
          (if inRange 0 0x7F b0 then 1
           else if inRange 0xC2 0xDF b0
             then (if list_all (inRange 0x80 0xBF) (take 1 r) \<and> 1 \<le> length r then 2 else 0)
           else if inRange 0xE0 0xEF b0
             then (if 2 \<le> length r
                      \<and> inRange (if b0 = CHR 0xE0 then 0xA0 else 0x80)
                                (if b0 = CHR 0xED then 0x9F else 0xBF) (r ! 0)
                      \<and> inRange 0x80 0xBF (r ! 1) then 3 else 0)
           else if inRange 0xF0 0xF4 b0
             then (if 3 \<le> length r
                      \<and> inRange (if b0 = CHR 0xF0 then 0x90 else 0x80)
                                (if b0 = CHR 0xF4 then 0x8F else 0xBF) (r ! 0)
                      \<and> inRange 0x80 0xBF (r ! 1) \<and> inRange 0x80 0xBF (r ! 2) then 4 else 0)
           else 0))"

definition encodeRune :: "nat \<Rightarrow> string" where
  "encodeRune r =
     (if r < 0x80 then [char_of r]
      else if r < 0x800 then [char_of (0xC0 + r div 64), char_of (0x80 + r mod 64)]
      else if r < 0x10000
        then [char_of (0xE0 + r div 4096), char_of (0x80 + r div 64 mod 64),
              char_of (0x80 + r mod 64)]
      else [char_of (0xF0 + r div 262144), char_of (0x80 + r div 4096 mod 64),
            char_of (0x80 + r div 64 mod 64), char_of (0x80 + r mod 64)])"

definition hexVal :: "char \<Rightarrow> nat" where
  "hexVal c =
     (if isDigit c then of_char c - 48
      else if c \<in> set ''abcdef'' then of_char c - 87
      else of_char c - 55)"

text \<open>\<open>getu4\<close>: the code unit of \<open>\uXXXX\<close> at the head of the bytes.\<close>

definition getu4 :: "string \<Rightarrow> nat option" where
  "getu4 s =
     (if 6 \<le> length s \<and> s ! 0 = CHR 0x5C \<and> s ! 1 = CHR ''u''
         \<and> list_all isHex (take 4 (drop 2 s))
      then Some (foldl (\<lambda>a c. 16 * a + hexVal c) 0 (take 4 (drop 2 s)))
      else None)"

definition unescape :: "char \<Rightarrow> char" where
  "unescape e =
     (if e = CHR ''b'' then CHR 0x08 else if e = CHR ''f'' then CHR 0x0C
      else if e = CHR ''n'' then CHR 0x0A else if e = CHR ''r'' then CHR 0x0D
      else if e = CHR ''t'' then CHR 0x09 else e)"

text \<open>
  \<open>unquote\<close> of the bytes between the quotes of a valid string literal: escapes are
  decoded (a surrogate that is not half of a pair becomes the replacement character) and
  bytes that are not well-formed UTF-8 are replaced.
\<close>

function unquote :: "string \<Rightarrow> string" where
  "unquote [] = []"
| "unquote (c # cs) =
     (if c = CHR 0x5C then
        (case getu4 (c # cs) of
           Some rr \<Rightarrow>
             (if 0xD800 \<le> rr \<and> rr < 0xE000 then
                (case getu4 (drop 5 cs) of
                   Some rr1 \<Rightarrow>
                     (if rr < 0xDC00 \<and> 0xDC00 \<le> rr1 \<and> rr1 < 0xE000
                      then encodeRune (0x10000 + (rr - 0xD800) * 0x400 + (rr1 - 0xDC00))
                             @ unquote (drop 11 cs)
                      else replacementChar @ unquote (drop 5 cs))
                 | None \<Rightarrow> replacementChar @ unquote (drop 5 cs))
              else encodeRune rr @ unquote (drop 5 cs))
         | None \<Rightarrow> (case cs of [] \<Rightarrow> [] | e # cs' \<Rightarrow> unescape e # unquote cs'))
      else if (of_char c :: nat) < 0x80 then c # unquote cs
      else (case utf8Len (c # cs) of
              0 \<Rightarrow> replacementChar @ unquote cs
            | Suc n \<Rightarrow> c # take n cs @ unquote (drop n cs)))"
  by pat_completeness auto
termination
  by (relation "measure length") auto

subsection \<open>Numbers\<close>

definition digitsValue :: "string \<Rightarrow> int" where
  "digitsValue ds = foldl (\<lambda>a c. 10 * a + (int (of_char c) - 48)) 0 ds"

text \<open>\<open>strconv.ParseInt(lit, 10, 64)\<close> on a JSON number literal.\<close>

definition parseInt64 :: "string \<Rightarrow> go_int option" where
  "parseInt64 lit =
     (let neg = (take 1 lit = ''-'');
          ds = (if neg then drop 1 lit else lit);
          v = (if neg then - digitsValue ds else digitsValue ds)
      in if ds \<noteq> [] \<and> list_all isDigit ds \<and> - (2 ^ 63) \<le> v \<and> v < 2 ^ 63
         then Some (word_of_int v) else None)"

definition digitChar :: "int \<Rightarrow> char" where
  "digitChar d = ''0123456789'' ! nat d"

fun natDigits :: "nat \<Rightarrow> int \<Rightarrow> string" where
  "natDigits 0 v = []"
| "natDigits (Suc n) v = (if v < 10 then [digitChar v] else natDigits n (v div 10) @ [digitChar (v mod 10)])"

text \<open>The decimal digits of \<open>v \<ge> 0\<close> (at most 20 of them for 64 bits).\<close>

definition decimal :: "int \<Rightarrow> string" where
  "decimal v = natDigits 20 v"

definition formatInt :: "go_int \<Rightarrow> string" where
  "formatInt n = (if sint n < 0 then ''-'' @ decimal (- sint n) else decimal (sint n))"

text \<open>\<open>v\<close> in \<open>n\<close> digits, padded with zeros on the left.\<close>

definition pad :: "nat \<Rightarrow> int \<Rightarrow> string" where
  "pad n v = replicate (n - length (decimal v)) CHR ''0'' @ decimal v"

text \<open>\<open>appendInt\<close>: the same with a sign in front of a negative number.\<close>

definition appendInt :: "nat \<Rightarrow> int \<Rightarrow> string" where
  "appendInt width x = (if x < 0 then ''-'' @ pad width (- x) else pad width x)"

subsection \<open>Times in RFC 3339\<close>

definition isLeap :: "int \<Rightarrow> bool" where
  "isLeap y \<longleftrightarrow> y mod 4 = 0 \<and> (y mod 100 \<noteq> 0 \<or> y mod 400 = 0)"

definition daysIn :: "int \<Rightarrow> int \<Rightarrow> int" where
  "daysIn m y =
     (if m = 2 then (if isLeap y then 29 else 28)
      else if m \<in> set [4, 6, 9, 11] then 30 else 31)"

text \<open>Days from 1970-01-01 to the civil date, and back (proleptic Gregorian calendar).\<close>

definition daysFromCivil :: "int \<Rightarrow> int \<Rightarrow> int \<Rightarrow> int" where
  "daysFromCivil y m d =
     (let y' = (if m \<le> 2 then y - 1 else y);
          era = y' div 400;
          yoe = y' - era * 400;
          doy = (153 * (if 2 < m then m - 3 else m + 9) + 2) div 5 + d - 1;
          doe = yoe * 365 + yoe div 4 - yoe div 100 + doy
      in era * 146097 + doe - 719468)"

definition civilFromDays :: "int \<Rightarrow> int \<times> int \<times> int" where
  "civilFromDays z0 =
     (let z = z0 + 719468;
          era = z div 146097;
          doe = z - era * 146097;
          yoe = (doe - doe div 1460 + doe div 36524 - doe div 146096) div 365;
          doy = doe - (365 * yoe + yoe div 4 - yoe div 100);
          mp = (5 * doy + 2) div 153;
          d = doy - (153 * mp + 2) div 5 + 1;
          m = (if mp < 10 then mp + 3 else mp - 9)
      in (yoe + era * 400 + (if m \<le> 2 then 1 else 0), m, d))"

definition num :: "string \<Rightarrow> int option" where
  "num ds = (if ds \<noteq> [] \<and> list_all isDigit ds then Some (digitsValue ds) else None)"

definition between :: "int \<Rightarrow> int \<Rightarrow> int option \<Rightarrow> bool" where
  "between lo hi x = (case x of None \<Rightarrow> False | Some v \<Rightarrow> lo \<le> v \<and> v \<le> hi)"

text \<open>
  \<open>parseRFC3339\<close>, the quick parser of the library for the strict form of RFC 3339,
  \<open>2006-01-02T15:04:05[.fraction](Z|\<plusminus>07:00)\<close>, every field in its range.
\<close>

definition parseRFC3339 :: "string \<Rightarrow> Time option" where
  "parseRFC3339 s =
     (let year = num (take 4 s); month = num (take 2 (drop 5 s));
          day = num (take 2 (drop 8 s)); hour = num (take 2 (drop 11 s));
          minute = num (take 2 (drop 14 s)); sec = num (take 2 (drop 17 s));
          r = drop 19 s;
          hasFrac = (2 \<le> length r \<and> r ! 0 = CHR ''.'' \<and> isDigit (r ! 1));
          frac = (if hasFrac then takeWhile isDigit (drop 1 r) else []);
          nsec = digitsValue (take 9 (frac @ replicate 9 CHR ''0''));
          z = (if hasFrac then dropWhile isDigit (drop 1 r) else r);
          zh = num (take 2 (drop 1 z)); zm = num (take 2 (drop 4 z))
      in if length s < 19 then None
         else if \<not> (between 0 9999 year \<and> between 1 12 month
                    \<and> between 1 (daysIn (the month) (the year)) day
                    \<and> between 0 23 hour \<and> between 0 59 minute \<and> between 0 59 sec
                    \<and> s ! 4 = CHR ''-'' \<and> s ! 7 = CHR ''-'' \<and> s ! 10 = CHR ''T''
                    \<and> s ! 13 = CHR '':'' \<and> s ! 16 = CHR '':'') then None
         else
           (let secs = daysFromCivil (the year) (the month) (the day) * 86400
                       + the hour * 3600 + the minute * 60 + the sec
            in if z = ''Z'' then Some \<lparr>unixNano = secs * 1000000000 + nsec, zoneOffset = 0\<rparr>
               else if length z = 6 \<and> between 0 23 zh \<and> between 0 59 zm
                       \<and> (z ! 0 = CHR ''-'' \<or> z ! 0 = CHR ''+'') \<and> z ! 3 = CHR '':''
               then (let off = (if z ! 0 = CHR ''-'' then - 1 else 1) * ((the zh * 60 + the zm) * 60)
                     in Some \<lparr>unixNano = (secs - off) * 1000000000 + nsec, zoneOffset = off\<rparr>)
               else None))"

text \<open>
  \<open>time.Parse\<close> with the layout \<open>RFC3339\<close>, element by element. \<open>getnum\<close> reads two digits,
  or one when the number is not of fixed width and no second digit follows.
\<close>

definition getnum :: "bool \<Rightarrow> string \<Rightarrow> (int \<times> string) option" where
  "getnum fixed s =
     (if \<not> (1 \<le> length s \<and> isDigit (s ! 0)) then None
      else if \<not> (2 \<le> length s \<and> isDigit (s ! 1))
        then (if fixed then None else Some (digitsValue (take 1 s), drop 1 s))
      else Some (digitsValue (take 2 s), drop 2 s))"

definition longYear :: "string \<Rightarrow> (int \<times> string) option" where
  "longYear s =
     (if 4 \<le> length s \<and> list_all isDigit (take 4 s)
      then Some (digitsValue (take 4 s), drop 4 s) else None)"

definition skipChar :: "char \<Rightarrow> string \<Rightarrow> string option" where
  "skipChar c s = (if take 1 s = [c] then Some (drop 1 s) else None)"

text \<open>
  The fraction of the second, which may follow the seconds though the layout has none: a
  period or a comma and digits, of which nine count.
\<close>

definition fracSecond :: "string \<Rightarrow> int \<times> string" where
  "fracSecond s =
     (if 2 \<le> length s \<and> (s ! 0 = CHR ''.'' \<or> s ! 0 = CHR '','') \<and> isDigit (s ! 1)
      then (digitsValue (take 9 (takeWhile isDigit (drop 1 s) @ replicate 9 CHR ''0'')),
            dropWhile isDigit (drop 1 s))
      else (0, s))"

text \<open>
  The zone, \<open>Z07:00\<close>: \<open>Z\<close>, or a sign, two digits, a colon and two digits; the hours may
  be up to 24 and the minutes up to 60. The result is the offset in seconds.
\<close>

definition zoneColon :: "string \<Rightarrow> (int \<times> string) option" where
  "zoneColon s =
     (if take 1 s = ''Z'' then Some (0, drop 1 s)
      else if length s < 6 \<or> s ! 3 \<noteq> CHR '':'' then None
      else
        (case (getnum True (take 2 (drop 1 s)), getnum True (take 2 (drop 4 s))) of
           (Some (hr, r1), Some (mm, r2)) \<Rightarrow>
             (if 24 < hr \<or> 60 < mm then None
              else if s ! 0 = CHR ''+'' then Some ((hr * 60 + mm) * 60, drop 6 s)
              else if s ! 0 = CHR ''-'' then Some (- ((hr * 60 + mm) * 60), drop 6 s)
              else None)
         | _ \<Rightarrow> None))"

definition time_Parse_RFC3339 :: "string \<Rightarrow> Time option" where
  "time_Parse_RFC3339 s0 = do {
     (year, s1) \<leftarrow> longYear s0;
     s2 \<leftarrow> skipChar CHR ''-'' s1;
     (month, s3) \<leftarrow> getnum True s2;
     s4 \<leftarrow> skipChar CHR ''-'' s3;
     (day, s5) \<leftarrow> getnum True s4;
     s6 \<leftarrow> skipChar CHR ''T'' s5;
     (hour, s7) \<leftarrow> getnum False s6;
     s8 \<leftarrow> skipChar CHR '':'' s7;
     (minute, s9) \<leftarrow> getnum True s8;
     s10 \<leftarrow> skipChar CHR '':'' s9;
     (sec, s11) \<leftarrow> getnum True s10;
     (off, s12) \<leftarrow> zoneColon (snd (fracSecond s11));
     if s12 = [] \<and> 1 \<le> month \<and> month \<le> 12 \<and> hour < 24 \<and> minute < 60 \<and> sec < 60
        \<and> 1 \<le> day \<and> day \<le> daysIn month year
     then Some \<lparr>unixNano = (daysFromCivil year month day * 86400 + hour * 3600
                              + minute * 60 + sec - off) * 1000000000
                             + fst (fracSecond s11),
                  zoneOffset = off\<rparr>
     else None
   }"

text \<open>
  \<open>parseStrictRFC3339\<close>, which \<open>Time.UnmarshalJSON\<close> calls on the bytes between the
  quotes: the quick parser, and \<open>time.Parse\<close> for what the quick parser refuses (a
  one-digit hour, a comma before the fraction, a zone of 24 hours or of 60 minutes).
\<close>

definition parseStrictRFC3339 :: "string \<Rightarrow> Time option" where
  "parseStrictRFC3339 b =
     (case parseRFC3339 b of Some t \<Rightarrow> Some t | None \<Rightarrow> time_Parse_RFC3339 b)"

text \<open>The civil reading of a time in its zone: year, month, day, hour, minute, second, nanosecond.\<close>

definition civil :: "Time \<Rightarrow> int \<times> int \<times> int \<times> int \<times> int \<times> int \<times> int" where
  "civil t =
     (let loc = unixNano t + zoneOffset t * 1000000000;
          secs = loc div 1000000000;
          (y, m, d) = civilFromDays (secs div 86400);
          sod = secs mod 86400
      in (y, m, d, sod div 3600, sod mod 3600 div 60, sod mod 60, loc mod 1000000000))"

definition formatZone :: "int \<Rightarrow> string" where
  "formatZone off =
     (let zone = \<bar>off\<bar> div 60
      in if off = 0 then ''Z''
         else (if off < 0 \<and> zone \<noteq> 0 then ''-'' else ''+'')
              @ pad 2 (zone div 60) @ '':'' @ pad 2 (zone mod 60))"

text \<open>\<open>Time.Format\<close> with the layouts \<open>RFC3339\<close> and, when \<open>nano\<close>, \<open>RFC3339Nano\<close>.\<close>

definition formatRFC3339 :: "bool \<Rightarrow> Time \<Rightarrow> string" where
  "formatRFC3339 nano t =
     (let (y, m, d, hh, mm, ss, ns) = civil t;
          frac = (if nano \<and> ns \<noteq> 0
                  then ''.'' @ rev (dropWhile (\<lambda>c. c = CHR ''0'') (rev (pad 9 ns))) else [])
      in appendInt 4 y @ ''-'' @ pad 2 m @ ''-'' @ pad 2 d @ ''T'' @ pad 2 hh @ '':'' @ pad 2 mm
         @ '':'' @ pad 2 ss @ frac @ formatZone (zoneOffset t))"

text \<open>
  \<open>Time.MarshalJSON\<close>: the time in \<open>RFC3339Nano\<close>, refused when the year does not take
  exactly four digits or the hours of the zone are 24 or more.
\<close>

definition Time_MarshalJSON :: "Time \<Rightarrow> string + string" where
  "Time_MarshalJSON t =
     (if fst (civil t) < 0 \<or> 9999 < fst (civil t)
      then Inl ''Time.MarshalJSON: year outside of range [0,9999]''
      else if zoneOffset t \<noteq> 0 \<and> 24 \<le> \<bar>zoneOffset t\<bar> div 60 div 60
      then Inl ''Time.MarshalJSON: timezone hour outside of range [0,23]''
      else Inr ([CHR 0x22] @ formatRFC3339 True t @ [CHR 0x22]))"

subsection \<open>Decoding into \<open>models.ConversionJob\<close>\<close>

datatype Field =
    F_ConversionID | F_FileID | F_FileGUID | F_UserID | F_InputS3Path | F_OutputS3Path
  | F_InputExtension | F_RetryCount | F_MaxRetries | F_CreatedAt | F_Timeout

text \<open>The \<open>json\<close> tags of the struct.\<close>

definition fieldTags :: "(string \<times> Field) list" where
  "fieldTags =
     [(''conversionId'', F_ConversionID), (''fileId'', F_FileID), (''fileGuid'', F_FileGUID),
      (''userId'', F_UserID), (''inputS3Path'', F_InputS3Path),
      (''outputS3Path'', F_OutputS3Path), (''inputExtension'', F_InputExtension),
      (''retryCount'', F_RetryCount), (''maxRetries'', F_MaxRetries),
      (''createdAt'', F_CreatedAt), (''timeout'', F_Timeout)]"

text \<open>
  Case folding of a key: ASCII letters, and the two other letters that fold to ASCII ones
  (the Kelvin sign and the long s).
\<close>

definition asciiLower :: "char \<Rightarrow> char" where
  "asciiLower c =
     (case map_of (zip ''ABCDEFGHIJKLMNOPQRSTUVWXYZ'' ''abcdefghijklmnopqrstuvwxyz'') c of
        Some l \<Rightarrow> l | None \<Rightarrow> c)"

fun foldName :: "string \<Rightarrow> string" where
  "foldName [] = []"
| "foldName (c # cs) =
     (if c = CHR 0xE2 \<and> take 2 cs = [CHR 0x84, CHR 0xAA] then CHR ''k'' # foldName (drop 2 cs)
      else if c = CHR 0xC5 \<and> take 1 cs = [CHR 0xBF] then CHR ''s'' # foldName (drop 1 cs)
      else asciiLower c # foldName cs)"

text \<open>The field of a key: the one with that tag, else the one whose tag folds to the same.\<close>

definition lookupField :: "string \<Rightarrow> Field option" where
  "lookupField key =
     (case map_of fieldTags key of
        Some f \<Rightarrow> Some f
      | None \<Rightarrow> map_of (map (\<lambda>(n, f). (foldName n, f)) fieldTags) (foldName key))"

definition zeroTime :: Time where
  "zeroTime = \<lparr>unixNano = - 62135596800000000000, zoneOffset = 0\<rparr>"

text \<open>The zero value of the struct, \<open>var job models.ConversionJob\<close>.\<close>

definition zeroJob :: ConversionJob where
  "zeroJob = \<lparr>ConversionID = 0, FileID = 0, FileGUID = [], UserID = 0, InputS3Path = [],
               OutputS3Path = [], InputExtension = [], RetryCount = 0, MaxRetries = 0,
               CreatedAt = zeroTime, Timeout = 0\<rparr>"

datatype Stored = Stored ConversionJob | TypeError string | Abort string

definition valueKind :: "Token \<Rightarrow> string" where
  "valueKind t =
     (case t of TString x \<Rightarrow> ''string'' | TNumber lit \<Rightarrow> ''number '' @ lit
      | TTrue \<Rightarrow> ''bool'' | TFalse \<Rightarrow> ''bool'' | TLBrace \<Rightarrow> ''object''
      | TLBracket \<Rightarrow> ''array'' | _ \<Rightarrow> [])"

definition typeErrorText :: "Token \<Rightarrow> string \<Rightarrow> string \<Rightarrow> string" where
  "typeErrorText v tag ty =
     ''json: cannot unmarshal '' @ valueKind v @ '' into Go struct field ConversionJob.''
       @ tag @ '' of type '' @ ty"

definition storeInt ::
  "string \<Rightarrow> (go_int \<Rightarrow> ConversionJob \<Rightarrow> ConversionJob) \<Rightarrow> Token \<Rightarrow> ConversionJob \<Rightarrow> Stored" where
  "storeInt tag upd v job =
     (case v of
        TNull \<Rightarrow> Stored job
      | TNumber lit \<Rightarrow>
          (case parseInt64 lit of
             Some n \<Rightarrow> Stored (upd n job)
           | None \<Rightarrow> TypeError (typeErrorText v tag ''int''))
      | _ \<Rightarrow> TypeError (typeErrorText v tag ''int''))"

definition storeString ::
  "string \<Rightarrow> (string \<Rightarrow> ConversionJob \<Rightarrow> ConversionJob) \<Rightarrow> Token \<Rightarrow> ConversionJob \<Rightarrow> Stored" where
  "storeString tag upd v job =
     (case v of
        TNull \<Rightarrow> Stored job
      | TString raw \<Rightarrow> Stored (upd (unquote raw) job)
      | _ \<Rightarrow> TypeError (typeErrorText v tag ''string''))"

definition storeTime :: "Token \<Rightarrow> ConversionJob \<Rightarrow> Stored" where
  "storeTime v job =
     (case v of
        TNull \<Rightarrow> Stored job
      | TString raw \<Rightarrow>
          (case parseStrictRFC3339 raw of
             Some t \<Rightarrow> Stored (job\<lparr>CreatedAt := t\<rparr>)
           | None \<Rightarrow> Abort (''parsing time '' @ raw @ '': not in the form of RFC 3339''))
      | _ \<Rightarrow> Abort ''Time.UnmarshalJSON: input is not a JSON string'')"

definition store :: "Field \<Rightarrow> Token \<Rightarrow> ConversionJob \<Rightarrow> Stored" where
  "store f v job =
     (case f of
        F_ConversionID \<Rightarrow> storeInt ''conversionId'' (\<lambda>n j. j\<lparr>ConversionID := n\<rparr>) v job
      | F_FileID \<Rightarrow> storeInt ''fileId'' (\<lambda>n j. j\<lparr>FileID := n\<rparr>) v job
      | F_FileGUID \<Rightarrow> storeString ''fileGuid'' (\<lambda>x j. j\<lparr>FileGUID := x\<rparr>) v job
      | F_UserID \<Rightarrow> storeInt ''userId'' (\<lambda>n j. j\<lparr>UserID := n\<rparr>) v job
      | F_InputS3Path \<Rightarrow> storeString ''inputS3Path'' (\<lambda>x j. j\<lparr>InputS3Path := x\<rparr>) v job
      | F_OutputS3Path \<Rightarrow> storeString ''outputS3Path'' (\<lambda>x j. j\<lparr>OutputS3Path := x\<rparr>) v job
      | F_InputExtension \<Rightarrow>
          storeString ''inputExtension'' (\<lambda>x j. j\<lparr>InputExtension := x\<rparr>) v job
      | F_RetryCount \<Rightarrow> storeInt ''retryCount'' (\<lambda>n j. j\<lparr>RetryCount := n\<rparr>) v job
      | F_MaxRetries \<Rightarrow> storeInt ''maxRetries'' (\<lambda>n j. j\<lparr>MaxRetries := n\<rparr>) v job
      | F_CreatedAt \<Rightarrow> storeTime v job
      | F_Timeout \<Rightarrow> storeInt ''timeout'' (\<lambda>n j. j\<lparr>Timeout := n\<rparr>) v job)"

text \<open>
  The members of the object, in their order; \<open>d\<close> is the depth inside a value that is
  being skipped (the value of an unknown key, or an array or object where a field cannot
  take one). A key with no field is skipped; a value of the wrong type for its field is an
  error that is kept (the first one) while the decoding goes on; an error of the time's own
  decoder ends the decoding. A field with no key keeps its zero value.
\<close>

fun members :: "nat \<Rightarrow> Token list \<Rightarrow> ConversionJob \<Rightarrow> string option \<Rightarrow> string + ConversionJob" where
  "members d [] job saved = Inl ''unexpected end of JSON input''"
| "members (Suc d) (t # ts) job saved =
     (if t = TLBrace \<or> t = TLBracket then members (Suc (Suc d)) ts job saved
      else if t = TRBrace \<or> t = TRBracket then members d ts job saved
      else members (Suc d) ts job saved)"
| "members 0 (t # ts) job saved =
     (if t = TRBrace then (case saved of None \<Rightarrow> Inr job | Some e \<Rightarrow> Inl e)
      else if t = TComma then members 0 ts job saved
      else
        (case (t, ts) of
           (TString k, TColon # v # ts') \<Rightarrow>
             (let d = (if v = TLBrace \<or> v = TLBracket then 1 else 0)
              in case lookupField (unquote k) of
                   None \<Rightarrow> members d ts' job saved
                 | Some f \<Rightarrow>
                     (case store f v job of
                        Stored job' \<Rightarrow> members d ts' job' saved
                      | TypeError e \<Rightarrow>
                          members d ts' job (case saved of None \<Rightarrow> Some e | Some e0 \<Rightarrow> saved)
                      | Abort e \<Rightarrow> Inl e))
         | _ \<Rightarrow> Inl ''unexpected token''))"

text \<open>
  \<open>json.Unmarshal(data, &job)\<close> on a zero \<open>job\<close>. The text is checked first; \<open>null\<close> leaves
  the struct as it is; a value that is no object is an error.
\<close>

definition json_Unmarshal_ConversionJob :: "string \<Rightarrow> string + ConversionJob" where
  "json_Unmarshal_ConversionJob data =
     (case checkValid data of
        None \<Rightarrow> Inl ''invalid JSON input''
      | Some ts \<Rightarrow>
          (case ts of
             TLBrace # ms \<Rightarrow> members 0 ms zeroJob None
           | [TNull] \<Rightarrow> Inr zeroJob
           | t # r \<Rightarrow>
               Inl (''json: cannot unmarshal '' @ valueKind t
                      @ '' into Go value of type models.ConversionJob'')
           | [] \<Rightarrow> Inl ''unexpected end of JSON input''))"

subsection \<open>Encoding a \<open>models.ConversionJob\<close>\<close>

definition hexDigit :: "nat \<Rightarrow> char" where
  "hexDigit n = ''0123456789abcdef'' ! n"

definition backslash :: char where
  "backslash = CHR 0x5C"

text \<open>One ASCII byte inside a string literal (with the escaping of HTML characters).\<close>

definition quoteByte :: "char \<Rightarrow> string" where
  "quoteByte c =
     (if c = CHR 0x22 \<or> c = backslash then [backslash, c]
      else if c = CHR 0x08 then [backslash, CHR ''b'']
      else if c = CHR 0x0C then [backslash, CHR ''f'']
      else if c = CHR 0x0A then [backslash, CHR ''n'']
      else if c = CHR 0x0D then [backslash, CHR ''r'']
      else if c = CHR 0x09 then [backslash, CHR ''t'']
      else if (of_char c :: nat) < 0x20 \<or> c \<in> set ''<>&''
        then [backslash, CHR ''u'', CHR ''0'', CHR ''0'',
              hexDigit (of_char c div 16), hexDigit (of_char c mod 16)]
      else [c])"

function quoteBody :: "string \<Rightarrow> string" where
  "quoteBody [] = []"
| "quoteBody (c # cs) =
     (if (of_char c :: nat) < 0x80 then quoteByte c @ quoteBody cs
      else
        (case utf8Len (c # cs) of
           0 \<Rightarrow> backslash # ''ufffd'' @ quoteBody cs
         | Suc n \<Rightarrow>
             (if c # take n cs = [CHR 0xE2, CHR 0x80, CHR 0xA8]
              then backslash # ''u2028'' @ quoteBody (drop n cs)
              else if c # take n cs = [CHR 0xE2, CHR 0x80, CHR 0xA9]
              then backslash # ''u2029'' @ quoteBody (drop n cs)
              else c # take n cs @ quoteBody (drop n cs))))"
  by pat_completeness auto
termination
  by (relation "measure length") auto

definition quote :: "string \<Rightarrow> string" where
  "quote x = CHR 0x22 # quoteBody x @ [CHR 0x22]"

definition member :: "string \<Rightarrow> string \<Rightarrow> string" where
  "member tag v = quote tag @ '':'' @ v"

fun commaSep :: "string list \<Rightarrow> string" where
  "commaSep [] = []"
| "commaSep [x] = x"
| "commaSep (x # y # r) = x @ '','' @ commaSep (y # r)"

text \<open>
  \<open>json.Marshal(job)\<close>: the fields in the order of the struct. The only error is the one of
  \<open>Time.MarshalJSON\<close>.
\<close>

definition json_Marshal_ConversionJob :: "ConversionJob \<Rightarrow> string + string" where
  "json_Marshal_ConversionJob job =
     (case Time_MarshalJSON (CreatedAt job) of
        Inl e \<Rightarrow> Inl (''json: error calling MarshalJSON for type time.Time: '' @ e)
      | Inr created \<Rightarrow>
          Inr (''{'' @ commaSep
            [member ''conversionId'' (formatInt (ConversionID job)),
             member ''fileId'' (formatInt (FileID job)),
             member ''fileGuid'' (quote (FileGUID job)),
             member ''userId'' (formatInt (UserID job)),
             member ''inputS3Path'' (quote (InputS3Path job)),
             member ''outputS3Path'' (quote (OutputS3Path job)),
             member ''inputExtension'' (quote (InputExtension job)),
             member ''retryCount'' (formatInt (RetryCount job)),
             member ''maxRetries'' (formatInt (MaxRetries job)),
             member ''createdAt'' created,
             member ''timeout'' (formatInt (Timeout job))] @ ''}''))"

text \<open>
  The library on the service's platform (linux/amd64, clock in UTC): the conversion of a
  float64 that does not fit an \<open>int64\<close> gives the smallest \<open>int64\<close>.
\<close>

definition goLib :: Lib where
  "goLib = \<lparr>json_Unmarshal = json_Unmarshal_ConversionJob,
             json_Marshal = json_Marshal_ConversionJob,
             float_overflow = (\<lambda>k. - 9223372036854775808),
             format_RFC3339 = (\<lambda>t. formatRFC3339 False \<lparr>unixNano = t, zoneOffset = 0\<rparr>)\<rparr>"

section \<open>What the status store cannot change\<close>

definition isStoreFailureLog :: "LogEvent \<Rightarrow> bool" where
  "isStoreFailureLog e =
     (case e of LogDbStatusFailed i x \<Rightarrow> True | LogDbCompletedFailed i x \<Rightarrow> True | _ \<Rightarrow> False)"

text \<open>
  All of the state but the database, with the log lines about failed writes to the
  database left out.
\<close>

definition outsideStore ::
  "World \<Rightarrow> string list \<times> string list \<times> string list \<times> (go_int \<Rightarrow> (string \<rightharpoonup> string))
            \<times> Timer list \<times> Host \<times> LogEvent list" where
  "outsideStore w =
     (pending w, processing w, failed w, statusHash w, timers w, host w,
      filter (\<lambda>e. \<not> isStoreFailureLog e) (logs w))"

section \<open>Example data\<close>

text \<open>
  A job of the producer's shape (conversion 42, three retries allowed) and the same job
  late in a long retry budget: 33 retries made, 40 allowed.
\<close>

definition job42 :: ConversionJob where
  "job42 = \<lparr>ConversionID = 42, FileID = 7, FileGUID = ''9f1c'', UserID = 3,
             InputS3Path = ''in/9f1c.docx'', OutputS3Path = ''out/9f1c.pdf'',
             InputExtension = ''docx'', RetryCount = 0, MaxRetries = 3,
             CreatedAt = \<lparr>unixNano = 1700000000000000000, zoneOffset = 0\<rparr>,
             Timeout = 120\<rparr>"

definition job42_late :: ConversionJob where
  "job42_late = job42\<lparr>RetryCount := 33, MaxRetries := 40\<rparr>"

text \<open>The entry of \<open>job42\<close> in the queue, and the entry of its first retry.\<close>

definition entry42 :: string where
  \<open>entry42 = ''{"conversionId":42,"fileId":7,"fileGuid":"9f1c","userId":3,"inputS3Path":"in/9f1c.docx","outputS3Path":"out/9f1c.pdf","inputExtension":"docx","retryCount":0,"maxRetries":3,"createdAt":"2023-11-14T22:13:20Z","timeout":120}''\<close>


text \<open>The same job with its retries used up, and its entry.\<close>

definition job42_spent :: ConversionJob where
  "job42_spent = job42\<lparr>RetryCount := 3\<rparr>"

definition entry42_spent :: string where
  \<open>entry42_spent = ''{"conversionId":42,"fileId":7,"fileGuid":"9f1c","userId":3,"inputS3Path":"in/9f1c.docx","outputS3Path":"out/9f1c.pdf","inputExtension":"docx","retryCount":3,"maxRetries":3,"createdAt":"2023-11-14T22:13:20Z","timeout":120}''\<close>



text \<open>An entry that is a JSON object with one of the fields of a job only.\<close>

definition entry_id_only :: string where
  \<open>entry_id_only = ''{"conversionId":42}''\<close>

text \<open>An entry that is no JSON.\<close>

definition entry_poison :: string where
  "entry_poison = ''not json''"

definition row42 :: FileConversion where
  "row42 = \<lparr>status = ''pending'', updated_at = 1700000000000000000, started_at = None,
             completed_at = None, output_s3_path = None, metadata = None,
             error_message = None, retry_count = 0\<rparr>"

text \<open>
  A state of the service ten minutes after the job was created: nothing in the lists, the
  row of conversion 42 in the database, which answers every statement.
\<close>

definition world0 :: World where
  "world0 = \<lparr>pending = [], processing = [], failed = [], statusHash = (\<lambda>cid. Map.empty),
              db = \<lparr>rows = [42 \<mapsto> row42], faults = []\<rparr>, timers = [],
              host = \<lparr>files = {}, clock = 1700000600000000000\<rparr>, logs = []\<rparr>"

text \<open>The same database when it cannot be reached: its next three statements fail.\<close>

definition db_down :: Database where
  "db_down = \<lparr>rows = [42 \<mapsto> row42],
               faults = [Some ''connection lost'', Some ''connection lost'',
                         Some ''connection lost'']\<rparr>"

text \<open>Adapters with the remote services out of reach: every call fails at once.\<close>

definition offline :: Adapters where
  "offline = \<lparr>Download = (\<lambda>h deadline s3Path fileGUID ext. (Inl ''connection refused'', h)),
               ConvertToPDFA = (\<lambda>h deadline inputPath ext. (Inl ''connection refused'', h)),
               Upload = (\<lambda>h deadline localPath s3Path. (Some ''connection refused'', h))\<rparr>"

section \<open>Words as signed numbers\<close>

lemma sint_of_int_64:
  "- (2 ^ 63) \<le> x \<Longrightarrow> x < 2 ^ 63 \<Longrightarrow> sint (word_of_int x :: 64 word) = x"
  by (simp add: sint_sbintrunc' signed_take_bit_int_eq_self)

lemma unat_of_int_64:
  "0 \<le> x \<Longrightarrow> x < 2 ^ 64 \<Longrightarrow> unat (word_of_int x :: 64 word) = nat x"
  by (simp add: unat_eq_nat_uint uint_word_of_int take_bit_int_eq_self)

section \<open>The backoff delay\<close>

lemma pow2_Duration_exact:
  assumes "0 \<le> k" "k \<le> 62"
  shows "pow2_Duration lib (word_of_int k) = word_of_int (2 ^ nat k)"
proof -
  have s: "sint (word_of_int k :: 64 word) = k"
    using assms by (intro sint_of_int_64) auto
  have u: "unat (word_of_int k :: 64 word) = nat k"
    using assms by (intro unat_of_int_64) auto
  show ?thesis
    using assms by (simp add: pow2_Duration_def word_sless_alt word_sle_eq s u)
qed

text \<open>
  Up to the 33rd retry the delay is the one intended: \<open>min (2 ^ k) 30\<close> seconds. (The
  product \<open>2 ^ k * 10 ^ 9\<close> still fits 63 bits there.)
\<close>

lemma backoffDelay_exact:
  assumes "1 \<le> k" "k \<le> 33"
  shows "sint (backoffDelay lib (word_of_int k)) = min (2 ^ nat k) 30 * 1000000000"
proof -
  have le: "(2::int) ^ nat k \<le> 2 ^ 33"
    using assms by (intro power_increasing) auto
  have pos: "(0::int) < 2 ^ nat k" by simp
  have d: "pow2_Duration lib (word_of_int k) * time_Second = word_of_int (2 ^ nat k * 1000000000)"
    using assms by (simp add: pow2_Duration_exact time_Second_def)
  have sd: "sint (word_of_int (2 ^ nat k * 1000000000) :: 64 word) = 2 ^ nat k * 1000000000"
  proof -
    define p :: int where "p = 2 ^ nat k"
    have "0 < p" "p \<le> 8589934592" using le pos by (simp_all add: p_def)
    then have "sint (word_of_int (p * 1000000000) :: 64 word) = p * 1000000000"
      by (intro sint_of_int_64) simp_all
    then show ?thesis by (simp add: p_def)
  qed
  have sdw: "sint (pow2_Duration lib (word_of_int k) * time_Second) = 2 ^ nat k * 1000000000"
    by (simp only: d sd)
  have s30: "sint (30 * time_Second) = 30000000000"
    by (simp add: time_Second_def)
  show ?thesis
  proof (cases "5 \<le> k")
    case True
    then have "(2::int) ^ 5 \<le> 2 ^ nat k"
      by (intro power_increasing) auto
    then show ?thesis
      by (simp add: backoffDelay_def Let_def word_sless_alt sdw s30)
  next
    case False
    with assms have "nat k \<in> {1, 2, 3, 4}" by auto
    then show ?thesis
      by (auto simp add: backoffDelay_def Let_def word_sless_alt sdw s30)
  qed
qed

text \<open>
  C2. The delay of retry attempt \<open>k\<close> should be \<open>min (2 ^ k) 30\<close> seconds, so 30 seconds for
  every \<open>k \<ge> 5\<close>. At the 34th retry (a job with 33 retries made and 40 allowed) the product
  \<open>2 ^ 34 * 10 ^ 9\<close> nanoseconds wraps around in the 64-bit Duration to a negative number,
  the cap \<open>delay > 30 * time.Second\<close> does not apply, and the timer that
  \<open>handleJobFailure\<close> starts has a negative delay instead of 30 seconds.
\<close>

theorem handleJobFailure_delay_wraps_at_34:
  "map (\<lambda>t. sint (delay t))
       (timers (handleJobFailure lib w workerID job42_late jobJSON errorMsg))
     = map (\<lambda>t. sint (delay t)) (timers w) @ [- 1266874889709551616]
   \<and> backoffDelay lib 34 \<noteq> 30 * time_Second"
  by (simp add: handleJobFailure_def job42_late_def job42_def Let_def logPrintf_def
        word_sless_alt backoffDelay_def pow2_Duration_def time_Second_def word_sle_eq)

section \<open>Cleanup of scratch files\<close>

text \<open>
  C9, as stated: \<open>Cleanup\<close> succeeds without error when the file is absent, so two calls in
  a row on the same path both succeed. It does not: after the first call has removed the
  file, the second returns the error of \<open>os.Remove\<close>.
\<close>

theorem Cleanup_twice_counterexample:
  "snd (Cleanup {''/tmp/conversions/9f1c.docx''} ''/tmp/conversions/9f1c.docx'') = None
   \<and> snd (Cleanup (fst (Cleanup {''/tmp/conversions/9f1c.docx''} ''/tmp/conversions/9f1c.docx''))
            ''/tmp/conversions/9f1c.docx'') \<noteq> None"
  by (simp add: Cleanup_def os_Remove_def)

text \<open>
  C9, amended. The effect of \<open>Cleanup\<close> on the files is idempotent, and it changes no file
  when the path names none. It returns no error exactly when the path is empty or the file
  was there; on a path that is not empty and names no file it returns the error of
  \<open>os.Remove\<close>, so the second of two calls in a row on such a path returns an error.
\<close>

theorem Cleanup_effect_idempotent:
  "fst (Cleanup (fst (Cleanup fs path)) path) = fst (Cleanup fs path)
   \<and> (path \<notin> fs \<longrightarrow> fst (Cleanup fs path) = fs)
   \<and> (snd (Cleanup fs path) = None \<longleftrightarrow> path = [] \<or> path \<in> fs)
   \<and> (path \<noteq> [] \<longrightarrow> snd (Cleanup (fst (Cleanup fs path)) path) \<noteq> None)"
  by (auto simp add: Cleanup_def os_Remove_def)

theorem Cleanup_effect_idempotent_witness:
  "''/tmp/a.pdf'' \<notin> {''/tmp/b.pdf''}
   \<and> ''/tmp/a.pdf'' \<noteq> []
   \<and> fst (Cleanup {''/tmp/b.pdf''} ''/tmp/a.pdf'') = {''/tmp/b.pdf''}
   \<and> snd (Cleanup {''/tmp/b.pdf''} ''/tmp/a.pdf'') \<noteq> None
   \<and> snd (Cleanup (fst (Cleanup {''/tmp/b.pdf''} ''/tmp/a.pdf'')) ''/tmp/a.pdf'') \<noteq> None"
  using Cleanup_effect_idempotent [of "{''/tmp/b.pdf''}" "''/tmp/a.pdf''"]
  by simp

section \<open>Failed attempts\<close>

lemma LRem_one: "LRem l (Suc 0) v = remove1 v l"
  by (induction l) auto


lemma faults_ExecContext: "faults (fst (ExecContext d cid upd)) = tl (faults d)"
  by (simp add: ExecContext_def split: list.splits option.splits)

lemma rows_ExecContext_ok:
  "faults d = [] \<Longrightarrow>
   rows (fst (ExecContext d cid upd)) = (rows d)(cid := map_option upd (rows d cid))"
  by (auto simp add: ExecContext_def split: option.splits)


lemma handleJobFailure_exhausted_eq:
  assumes "\<not> RetryCount job <s MaxRetries job"
  shows "handleJobFailure lib w workerID job jobJSON errorMsg =
           w\<lparr>logs := logs w @ [LogFailed workerID (ConversionID job) errorMsg,
                               LogMovedToFailed workerID (ConversionID job) (MaxRetries job)],
             processing := remove1 jobJSON (processing w),
             failed := jobJSON # failed w,
             db := fst (UpdateConversionError
                      (fst (UpdateConversionStatus
                         (fst (IncrementRetryCount (db w) (clock (host w)) (ConversionID job)))
                         (clock (host w)) (ConversionID job) ''failed'' [] None))
                      (clock (host w)) (ConversionID job) errorMsg),
             statusHash := (statusHash w)
               (ConversionID job := HSet (statusHash w (ConversionID job))
                  [(''status'', ''failed''), (''error'', errorMsg),
                   (''updated_at'', format_RFC3339 lib (clock (host w)))])\<rparr>"
  using assms by (simp add: handleJobFailure_def Let_def logPrintf_def LRem_one LPush_def)

lemma db_failed_written:
  assumes "faults d = []" "rows d cid = Some r"
  shows "\<exists>r'. rows (fst (UpdateConversionError
                      (fst (UpdateConversionStatus (fst (IncrementRetryCount d now cid))
                         now cid ''failed'' [] None)) now cid errorMsg)) cid = Some r'
              \<and> status r' = ''failed'' \<and> error_message r' = Some errorMsg"
  using assms
  by (simp add: UpdateConversionError_def UpdateConversionStatus_def IncrementRetryCount_def
        rows_ExecContext_ok faults_ExecContext Let_def)




text \<open>
  C3. When an attempt of a job fails while \<open>retryCount \<ge> maxRetries\<close>, \<open>handleJobFailure\<close>
  pushes the entry as it was claimed onto the head of the failed list, pushes nothing onto
  the pending list and starts no timer, so the job does not come back; it writes the status
  \<open>failed\<close> and the error text to the status hash, and to the row of the job in the database
  when the database takes the statements.
\<close>

theorem handleJobFailure_exhausted:
  assumes "MaxRetries job \<le>s RetryCount job"
  shows
    "let w' = handleJobFailure lib w workerID job jobJSON errorMsg
     in failed w' = jobJSON # failed w
      \<and> pending w' = pending w
      \<and> timers w' = timers w
      \<and> processing w' = remove1 jobJSON (processing w)
      \<and> statusHash w' (ConversionID job) ''status'' = Some ''failed''
      \<and> statusHash w' (ConversionID job) ''error'' = Some errorMsg
      \<and> (faults (db w) = [] \<and> rows (db w) (ConversionID job) = Some r \<longrightarrow>
            (\<exists>r'. rows (db w') (ConversionID job) = Some r'
                \<and> status r' = ''failed'' \<and> error_message r' = Some errorMsg))"
proof -
  have n: "\<not> RetryCount job <s MaxRetries job"
    using assms by (simp add: word_sle_eq word_sless_alt)
  show ?thesis
    unfolding handleJobFailure_exhausted_eq [OF n] Let_def
    by (simp add: HSet_def db_failed_written)
qed

theorem handleJobFailure_exhausted_witness:
  "MaxRetries job42_spent \<le>s RetryCount job42_spent
   \<and> faults (db world0) = []
   \<and> rows (db world0) (ConversionID job42_spent) = Some row42
   \<and> failed (handleJobFailure goLib (world0\<lparr>processing := [entry42_spent]\<rparr>) 1 job42_spent
         entry42_spent ''S3 upload failed: connection refused'') = [entry42_spent]
   \<and> pending (handleJobFailure goLib (world0\<lparr>processing := [entry42_spent]\<rparr>) 1 job42_spent
         entry42_spent ''S3 upload failed: connection refused'') = []
   \<and> timers (handleJobFailure goLib (world0\<lparr>processing := [entry42_spent]\<rparr>) 1 job42_spent
         entry42_spent ''S3 upload failed: connection refused'') = []
   \<and> processing (handleJobFailure goLib (world0\<lparr>processing := [entry42_spent]\<rparr>) 1 job42_spent
         entry42_spent ''S3 upload failed: connection refused'') = []
   \<and> statusHash (handleJobFailure goLib (world0\<lparr>processing := [entry42_spent]\<rparr>) 1 job42_spent
         entry42_spent ''S3 upload failed: connection refused'') 42 ''status'' = Some ''failed''
   \<and> (\<exists>r'. rows (db (handleJobFailure goLib (world0\<lparr>processing := [entry42_spent]\<rparr>) 1
                       job42_spent entry42_spent ''S3 upload failed: connection refused'')) 42
               = Some r'
           \<and> status r' = ''failed''
           \<and> error_message r' = Some ''S3 upload failed: connection refused'')"
proof -
  have h: "MaxRetries job42_spent \<le>s RetryCount job42_spent" by code_simp
  have c: "ConversionID job42_spent = 42" by (simp add: job42_spent_def job42_def)
  have p: "processing world0 = []" "pending world0 = []" "timers world0 = []"
    "failed world0 = []" "faults (db world0) = []" "rows (db world0) 42 = Some row42"
    by (simp_all add: world0_def)
  show ?thesis
    using handleJobFailure_exhausted [OF h, of goLib "world0\<lparr>processing := [entry42_spent]\<rparr>"
        1 entry42_spent "''S3 upload failed: connection refused''" row42] h p
    by (simp add: Let_def c)
qed

section \<open>Entries that cannot be decoded\<close>

text \<open>
  C5. When the claimed entry cannot be parsed into a job, the worker removes it from the
  processing list, where the claim has just put it at the head, and drops it: after the
  round the entry is gone from the pending list and everything else but the log is as it
  was before the claim: the processing and failed lists, the database with its retry
  counters, the timers.
\<close>

theorem workerIteration_poison:
  assumes "pending w \<noteq> []" and "json_Unmarshal lib (last (pending w)) = Inl e"
  shows "workerIteration lib ad None w workerID =
           w\<lparr>pending := butlast (pending w), logs := logs w @ [LogParseFailed workerID e]\<rparr>
       \<and> fst (BRPopLPush None w) = Value (last (pending w))
       \<and> processing (snd (BRPopLPush None w)) = last (pending w) # processing w"
  using assms
  by (simp add: workerIteration_def BRPopLPush_def Let_def logPrintf_def LPush_def)

theorem workerIteration_poison_witness:
  "pending (world0\<lparr>pending := [entry_poison], processing := [entry42]\<rparr>) \<noteq> []
   \<and> json_Unmarshal goLib (last (pending (world0\<lparr>pending := [entry_poison], processing := [entry42]\<rparr>)))
       = Inl ''invalid JSON input''
   \<and> workerIteration goLib offline None
        (world0\<lparr>pending := [entry_poison], processing := [entry42]\<rparr>) 1
       = world0\<lparr>pending := [], processing := [entry42],
                logs := [LogParseFailed 1 ''invalid JSON input'']\<rparr>"
proof -
  have u: "json_Unmarshal goLib entry_poison = Inl ''invalid JSON input''" by code_simp
  have l: "logs world0 = []" by (simp add: world0_def)
  show ?thesis
    using workerIteration_poison [of "world0\<lparr>pending := [entry_poison], processing := [entry42]\<rparr>"
        goLib "''invalid JSON input''" offline 1] u
    by (simp add: l)
qed

lemma logs_db_commute: "w\<lparr>logs := l, db := d\<rparr> = w\<lparr>db := d, logs := l\<rparr>"
  by simp

lemma processJob_offline:
  "processJob lib offline w workerID job jobJSON =
     handleJobFailure lib
       (w\<lparr>db := fst (UpdateConversionStatus (db w) (clock (host w)) (ConversionID job)
                       ''processing'' [] None),
          logs := logs w @ [LogProcessing workerID (ConversionID job) (FileGUID job)]
                  @ (case snd (UpdateConversionStatus (db w) (clock (host w)) (ConversionID job)
                                 ''processing'' [] None) of
                       None \<Rightarrow> [] | Some e \<Rightarrow> [LogDbStatusFailed workerID e])\<rparr>)
       workerID job jobJSON ''S3 download failed: connection refused''"
  by (simp add: processJob_def offline_def Let_def logPrintf_def logs_db_commute split: prod.splits option.splits)

text \<open>
  C6, as stated: an entry that is valid JSON but lacks fields of a job is rejected by the
  decode-fail path. It is not: \<open>json.Unmarshal\<close> leaves a field with no key at its zero
  value and returns no error, so the entry \<open>{"conversionId":42}\<close> is decoded and processed
  (here with the storage out of reach: the attempt fails, and with \<open>maxRetries\<close> zero the
  entry ends on the failed list).
\<close>

theorem missing_fields_counterexample:
  "json_Unmarshal goLib entry_id_only = Inr (zeroJob\<lparr>ConversionID := 42\<rparr>)
   \<and> failed (workerIteration goLib offline None (world0\<lparr>pending := [entry_id_only]\<rparr>) 1)
       = [entry_id_only]
   \<and> logs (workerIteration goLib offline None (world0\<lparr>pending := [entry_id_only]\<rparr>) 1)
       = [LogProcessing 1 42 [],
          LogFailed 1 42 ''S3 download failed: connection refused'',
          LogMovedToFailed 1 42 0]"
proof -
  have u: "json_Unmarshal goLib entry_id_only = Inr (zeroJob\<lparr>ConversionID := 42\<rparr>)"
    by code_simp
  have n: "\<not> RetryCount (zeroJob\<lparr>ConversionID := 42\<rparr>) <s MaxRetries (zeroJob\<lparr>ConversionID := 42\<rparr>)"
    by (simp add: zeroJob_def)
  have z: "FileGUID zeroJob = []" "MaxRetries zeroJob = 0" by (simp_all add: zeroJob_def)
  have f: "faults (db world0) = []" "failed world0 = []" "logs world0 = []"
    by (simp_all add: world0_def)
  show ?thesis
    by (simp add: u workerIteration_def BRPopLPush_def LPush_def processJob_offline
          handleJobFailure_exhausted_eq [OF n] UpdateConversionStatus_def ExecContext_def f z)
qed

text \<open>
  C6, amended. The worker takes the decode-fail path exactly when \<open>json.Unmarshal\<close>
  returns an error; an entry that it decodes, also one that lacks fields of a job (they are
  left at their zero values), is handed to \<open>processJob\<close> like any other.
\<close>

theorem workerIteration_decode:
  assumes "pending w \<noteq> []"
  shows "(json_Unmarshal lib (last (pending w)) = Inl e \<longrightarrow>
            workerIteration lib ad None w workerID =
              w\<lparr>pending := butlast (pending w), logs := logs w @ [LogParseFailed workerID e]\<rparr>)
       \<and> (json_Unmarshal lib (last (pending w)) = Inr job \<longrightarrow>
            workerIteration lib ad None w workerID =
              processJob lib ad
                (w\<lparr>pending := butlast (pending w),
                   processing := last (pending w) # processing w\<rparr>)
                workerID job (last (pending w)))"
  using assms
  by (simp add: workerIteration_def BRPopLPush_def Let_def logPrintf_def LPush_def)

theorem workerIteration_decode_witness:
  "pending (world0\<lparr>pending := [entry_id_only]\<rparr>) \<noteq> []
   \<and> json_Unmarshal goLib (last (pending (world0\<lparr>pending := [entry_id_only]\<rparr>)))
       = Inr (zeroJob\<lparr>ConversionID := 42\<rparr>)
   \<and> workerIteration goLib offline None (world0\<lparr>pending := [entry_id_only]\<rparr>) 1
       = processJob goLib offline (world0\<lparr>pending := [], processing := [entry_id_only]\<rparr>) 1
           (zeroJob\<lparr>ConversionID := 42\<rparr>) entry_id_only
   \<and> json_Unmarshal goLib (last (pending (world0\<lparr>pending := [entry_poison]\<rparr>)))
       = Inl ''invalid JSON input''
   \<and> workerIteration goLib offline None (world0\<lparr>pending := [entry_poison]\<rparr>) 1
       = world0\<lparr>pending := [], logs := [LogParseFailed 1 ''invalid JSON input'']\<rparr>"
proof -
  have u: "json_Unmarshal goLib entry_id_only = Inr (zeroJob\<lparr>ConversionID := 42\<rparr>)"
    by code_simp
  have v: "json_Unmarshal goLib entry_poison = Inl ''invalid JSON input''" by code_simp
  have l: "logs world0 = []" "processing world0 = []" by (simp_all add: world0_def)
  show ?thesis
    using workerIteration_decode [where w = "world0\<lparr>pending := [entry_id_only]\<rparr>"
        and lib = goLib and ad = offline and workerID = 1
        and job = "zeroJob\<lparr>ConversionID := 42\<rparr>" and e = "''x''"]
      workerIteration_decode [where w = "world0\<lparr>pending := [entry_poison]\<rparr>"
        and lib = goLib and ad = offline and workerID = 1
        and job = zeroJob and e = "''invalid JSON input''"]
      u v
    by (simp add: l)
qed

section \<open>Failures of the status store\<close>

lemma outsideStore_db: "outsideStore (w\<lparr>db := d\<rparr>) = outsideStore w"
  by (simp add: outsideStore_def)

lemma outsideStore_host:
  "outsideStore w = outsideStore w' \<Longrightarrow> host w = host w'"
  by (simp add: outsideStore_def)

lemma outsideStore_host_update:
  "outsideStore w = outsideStore w' \<Longrightarrow> outsideStore (w\<lparr>host := h\<rparr>) = outsideStore (w'\<lparr>host := h\<rparr>)"
  by (simp add: outsideStore_def)

lemma outsideStore_handleJobFailure:
  "outsideStore w = outsideStore w' \<Longrightarrow>
   outsideStore (handleJobFailure lib w workerID job jobJSON errorMsg) =
   outsideStore (handleJobFailure lib w' workerID job jobJSON errorMsg)"
  by (simp add: handleJobFailure_def outsideStore_def Let_def logPrintf_def)

lemma outsideStore_deferCleanup:
  "outsideStore w = outsideStore w' \<Longrightarrow>
   outsideStore (deferCleanup path w) = outsideStore (deferCleanup path w')"
  by (simp add: deferCleanup_def outsideStore_def)

lemma outsideStore_settleCompleted:
  "outsideStore w = outsideStore w' \<Longrightarrow>
   outsideStore (settleCompleted lib w workerID job jobJSON startTime) =
   outsideStore (settleCompleted lib w' workerID job jobJSON startTime)"
  by (simp add: settleCompleted_def outsideStore_def Let_def logPrintf_def case_prod_beta
        isStoreFailureLog_def split: option.splits)

lemma outsideStore_processJob:
  assumes "outsideStore w = outsideStore w'"
  shows "outsideStore (processJob lib ad w workerID job jobJSON) =
         outsideStore (processJob lib ad w' workerID job jobJSON)"
proof -
  define rest where "rest = (\<lambda>w2.
    let deadline = clock (host w2) + sint (Timeout job * time_Second);
        startTime = clock (host w2);
        (r1, h1) = Download ad (host w2) deadline (InputS3Path job) (FileGUID job)
                      (InputExtension job);
        w3 = w2\<lparr>host := h1\<rparr>
    in case r1 of
         Inl e \<Rightarrow> handleJobFailure lib w3 workerID job jobJSON (''S3 download failed: '' @ e)
       | Inr localInputPath \<Rightarrow>
           deferCleanup localInputPath
             (let (r2, h2) = ConvertToPDFA ad (host w3) deadline localInputPath
                               (InputExtension job);
                  w4 = w3\<lparr>host := h2\<rparr>
              in case r2 of
                   Inl e \<Rightarrow>
                     handleJobFailure lib w4 workerID job jobJSON
                       (''Office conversion failed: '' @ e)
                 | Inr localOutputPath \<Rightarrow>
                     deferCleanup localOutputPath
                       (let (r3, h3) = Upload ad (host w4) deadline localOutputPath
                                         (OutputS3Path job);
                            w5 = w4\<lparr>host := h3\<rparr>
                        in case r3 of
                             Some e \<Rightarrow>
                               handleJobFailure lib w5 workerID job jobJSON
                                 (''S3 upload failed: '' @ e)
                           | None \<Rightarrow>
                               settleCompleted lib w5 workerID job jobJSON startTime)))"
  define first where "first = (\<lambda>w0.
    let w1 = logPrintf (LogProcessing workerID (ConversionID job) (FileGUID job)) w0;
        (d1, err1) = UpdateConversionStatus (db w1) (clock (host w1)) (ConversionID job)
                        ''processing'' [] None
    in (case err1 of
          None \<Rightarrow> w1\<lparr>db := d1\<rparr>
        | Some e \<Rightarrow> logPrintf (LogDbStatusFailed workerID e) (w1\<lparr>db := d1\<rparr>)))"
  have p: "processJob lib ad v workerID job jobJSON = rest (first v)" for v
    by (simp add: processJob_def rest_def first_def Let_def case_prod_beta)
  have f: "outsideStore (first w) = outsideStore (first w')"
    using assms
    by (simp add: first_def outsideStore_def Let_def logPrintf_def case_prod_beta
          isStoreFailureLog_def split: option.splits)
  have r: "outsideStore (rest a) = outsideStore (rest b)" if "outsideStore a = outsideStore b" for a b
  proof -
    have h: "host b = host a" using that by (simp add: outsideStore_def)
    show ?thesis
      using that
      by (auto simp add: rest_def Let_def case_prod_beta h split: sum.splits option.splits
            intro!: outsideStore_handleJobFailure outsideStore_deferCleanup
                    outsideStore_settleCompleted outsideStore_host_update)
  qed
  show ?thesis by (simp only: p r [OF f])
qed


lemma logs_handleJobFailure:
  "logs (handleJobFailure lib w workerID job jobJSON errorMsg) =
     logs w @ (if RetryCount job <s MaxRetries job
               then [LogFailed workerID (ConversionID job) errorMsg]
               else [LogFailed workerID (ConversionID job) errorMsg,
                     LogMovedToFailed workerID (ConversionID job) (MaxRetries job)])"
  by (simp add: handleJobFailure_def Let_def logPrintf_def)

lemma logs_deferCleanup: "logs (deferCleanup path w) = logs w"
  by (simp add: deferCleanup_def)

lemma logs_settleCompleted:
  "logs (settleCompleted lib w workerID job jobJSON startTime) =
     logs w
     @ (case snd (UpdateConversionStatus (db w) (clock (host w)) (ConversionID job)
                    ''completed'' (OutputS3Path job)
                    (Some \<lparr>worker_id = workerID,
                           duration_ms = Milliseconds (time_Sub (clock (host w)) startTime)\<rparr>)) of
          None \<Rightarrow> [] | Some e \<Rightarrow> [LogDbCompletedFailed workerID e])
     @ [LogCompleted workerID (ConversionID job) (time_Sub (clock (host w)) startTime)]"
  by (simp add: settleCompleted_def Let_def logPrintf_def case_prod_beta split: option.splits)

lemma ExecContext_fault:
  "faults d = Some e # f \<Longrightarrow> ExecContext d cid upd = (d\<lparr>faults := f\<rparr>, Some e)"
  by (simp add: ExecContext_def)

lemma processJob_logs_store_failure:
  assumes "faults (db w) = Some e # f"
  shows "LogDbStatusFailed workerID e \<in> set (logs (processJob lib ad w workerID job jobJSON))"
  using assms
  by (simp add: processJob_def Let_def case_prod_beta UpdateConversionStatus_def
        ExecContext_fault logPrintf_def logs_handleJobFailure logs_deferCleanup
        logs_settleCompleted split: sum.splits option.splits)

lemma job42_spent_exhausted: "\<not> RetryCount job42_spent <s MaxRetries job42_spent"
  by code_simp

text \<open>
  C8, as stated: a failed write to the status store changes nothing in the processing of
  the job and is logged. The first holds; the second does not for the writes of
  \<open>handleJobFailure\<close>. Here the three statements of an exhausted job (the retry counter,
  the status \<open>failed\<close>, the error text) all fail, the row stays as it was, and the log has
  no line about it.
\<close>

theorem store_failure_not_logged_counterexample:
  "rows (db (handleJobFailure goLib (world0\<lparr>db := db_down\<rparr>) 1 job42_spent entry42_spent
               ''S3 upload failed: connection refused'')) 42 = Some row42
   \<and> faults (db (handleJobFailure goLib (world0\<lparr>db := db_down\<rparr>) 1 job42_spent entry42_spent
               ''S3 upload failed: connection refused'')) = []
   \<and> logs (handleJobFailure goLib (world0\<lparr>db := db_down\<rparr>) 1 job42_spent entry42_spent
             ''S3 upload failed: connection refused'')
       = [LogFailed 1 42 ''S3 upload failed: connection refused'', LogMovedToFailed 1 42 3]"
proof -
  have c: "ConversionID job42_spent = 42" "MaxRetries job42_spent = 3"
    by (simp_all add: job42_spent_def job42_def)
  have l: "logs world0 = []" by (simp add: world0_def)
  show ?thesis
    by (simp add: handleJobFailure_exhausted_eq [OF job42_spent_exhausted] c l db_down_def
          IncrementRetryCount_def UpdateConversionStatus_def UpdateConversionError_def
          ExecContext_def)
qed

text \<open>
  C8, amended. A failure of a write to the status store never aborts or alters the
  processing of the job: whatever the database does, \<open>processJob\<close> and \<open>handleJobFailure\<close>
  leave the lists, the status hash, the timers and the host the same, and the same log but
  for the lines about failed writes. \<open>processJob\<close> logs a failure of the writes of the
  statuses \<open>processing\<close> and \<open>completed\<close>; \<open>handleJobFailure\<close> logs nothing about a failure
  of its writes (retry counter, status \<open>failed\<close>, error text).
\<close>

theorem store_failure_never_alters:
  "outsideStore (processJob lib ad (w\<lparr>db := dA\<rparr>) workerID job jobJSON)
     = outsideStore (processJob lib ad (w\<lparr>db := dB\<rparr>) workerID job jobJSON)
   \<and> outsideStore (handleJobFailure lib (w\<lparr>db := dA\<rparr>) workerID job jobJSON errorMsg)
     = outsideStore (handleJobFailure lib (w\<lparr>db := dB\<rparr>) workerID job jobJSON errorMsg)
   \<and> logs (handleJobFailure lib (w\<lparr>db := dA\<rparr>) workerID job jobJSON errorMsg)
     = logs (handleJobFailure lib (w\<lparr>db := dB\<rparr>) workerID job jobJSON errorMsg)
   \<and> (faults dA = Some e # f \<longrightarrow>
        LogDbStatusFailed workerID e
          \<in> set (logs (processJob lib ad (w\<lparr>db := dA\<rparr>) workerID job jobJSON)))
   \<and> (faults dA = Some e # f \<longrightarrow>
        LogDbCompletedFailed workerID e
          \<in> set (logs (settleCompleted lib (w\<lparr>db := dA\<rparr>) workerID job jobJSON startTime)))"
proof -
  have v: "outsideStore (w\<lparr>db := dA\<rparr>) = outsideStore (w\<lparr>db := dB\<rparr>)"
    by (simp add: outsideStore_db)
  show ?thesis
    by (simp add: outsideStore_processJob [OF v] outsideStore_handleJobFailure [OF v]
          logs_handleJobFailure processJob_logs_store_failure logs_settleCompleted
          UpdateConversionStatus_def ExecContext_fault)
qed

theorem store_failure_never_alters_witness:
  "faults db_down = Some ''connection lost'' # [Some ''connection lost'', Some ''connection lost'']
   \<and> outsideStore (processJob goLib offline (world0\<lparr>db := db_down\<rparr>) 1 job42 entry42)
     = outsideStore (processJob goLib offline (world0\<lparr>db := db world0\<rparr>) 1 job42 entry42)
   \<and> LogDbStatusFailed 1 ''connection lost''
        \<in> set (logs (processJob goLib offline (world0\<lparr>db := db_down\<rparr>) 1 job42 entry42))
   \<and> LogDbCompletedFailed 1 ''connection lost''
        \<in> set (logs (settleCompleted goLib (world0\<lparr>db := db_down\<rparr>) 1 job42 entry42
                        1700000590000000000))"
  using store_failure_never_alters [where lib = goLib and ad = offline and w = world0
      and dA = db_down and dB = "db world0" and workerID = 1 and job = job42
      and jobJSON = entry42 and errorMsg = "''x''" and e = "''connection lost''"
      and f = "[Some ''connection lost'', Some ''connection lost'']"
      and startTime = 1700000590000000000]
  by (simp add: db_down_def)

section \<open>The recovery sweep\<close>

lemma count_list_remove1_other: "x \<noteq> e \<Longrightarrow> count_list (remove1 x xs) e = count_list xs e"
  by (induction xs) auto

lemma recoverJob_skips:
  "json_Unmarshal lib e = Inl err \<Longrightarrow> recoverJob lib s e = s"
  by (simp add: recoverJob_def case_prod_beta)

lemma recoverJob_keeps:
  assumes "json_Unmarshal lib e = Inl err"
  shows "count_list (processing (fst (recoverJob lib s x))) e = count_list (processing (fst s)) e
       \<and> count_list (failed (fst (recoverJob lib s x))) e = count_list (failed (fst s)) e"
proof (cases "json_Unmarshal lib x")
  case (Inl a)
  then show ?thesis by (simp add: recoverJob_def case_prod_beta)
next
  case (Inr job)
  with assms have ne: "x \<noteq> e" by auto
  show ?thesis
    using Inr ne
    by (auto simp add: recoverJob_def case_prod_beta Let_def LRem_one LPush_def
          count_list_remove1_other)
qed

lemma recoverJob_keeps_pending:
  assumes "json_Unmarshal lib e = Inl err"
    and "\<And>j. json_Unmarshal lib x = Inr j \<Longrightarrow>
           marshalled lib (j\<lparr>RetryCount := RetryCount j + 1\<rparr>) \<noteq> e"
  shows "count_list (pending (fst (recoverJob lib s x))) e = count_list (pending (fst s)) e"
proof (cases "json_Unmarshal lib x")
  case (Inl a)
  then show ?thesis by (simp add: recoverJob_def case_prod_beta)
next
  case (Inr job)
  from assms(2) [OF Inr] show ?thesis
    using Inr
    by (simp add: recoverJob_def case_prod_beta Let_def LPush_def)
qed

lemma foldl_recoverJob_keeps:
  assumes "json_Unmarshal lib e = Inl err"
  shows "count_list (processing (fst (foldl (recoverJob lib) s xs))) e
           = count_list (processing (fst s)) e
       \<and> count_list (failed (fst (foldl (recoverJob lib) s xs))) e
           = count_list (failed (fst s)) e"
proof (induction xs arbitrary: s)
  case Nil
  show ?case by simp
next
  case (Cons x xs)
  from Cons.IH [of "recoverJob lib s x"] recoverJob_keeps [OF assms, of s x]
  show ?case by simp
qed

lemma foldl_recoverJob_keeps_pending:
  assumes "json_Unmarshal lib e = Inl err"
    and "\<forall>x \<in> set xs. \<forall>j. json_Unmarshal lib x = Inr j \<longrightarrow>
           marshalled lib (j\<lparr>RetryCount := RetryCount j + 1\<rparr>) \<noteq> e"
  shows "count_list (pending (fst (foldl (recoverJob lib) s xs))) e
           = count_list (pending (fst s)) e"
  using assms(2)
proof (induction xs arbitrary: s)
  case Nil
  show ?case by simp
next
  case (Cons x xs)
  have "count_list (pending (fst (recoverJob lib s x))) e = count_list (pending (fst s)) e"
    using Cons.prems by (intro recoverJob_keeps_pending [OF assms(1)]) auto
  moreover have "count_list (pending (fst (foldl (recoverJob lib) (recoverJob lib s x) xs))) e
           = count_list (pending (fst (recoverJob lib s x))) e"
    using Cons.prems by (intro Cons.IH) auto
  ultimately show ?case by simp
qed

lemma recoverStaleJobs_lists:
  "processing (recoverStaleJobs lib rangeErr w) =
     (case rangeErr of Some x \<Rightarrow> processing w
      | None \<Rightarrow> processing (fst (foldl (recoverJob lib) (w, 0) (processing w))))"
  "failed (recoverStaleJobs lib rangeErr w) =
     (case rangeErr of Some x \<Rightarrow> failed w
      | None \<Rightarrow> failed (fst (foldl (recoverJob lib) (w, 0) (processing w))))"
  "pending (recoverStaleJobs lib rangeErr w) =
     (case rangeErr of Some x \<Rightarrow> pending w
      | None \<Rightarrow> pending (fst (foldl (recoverJob lib) (w, 0) (processing w))))"
  by (simp_all add: recoverStaleJobs_def LRange_all_def logPrintf_def Let_def case_prod_beta
        split: option.splits)

lemma recoverStaleJobs_keeps:
  assumes "json_Unmarshal lib e = Inl err"
  shows "count_list (processing (recoverStaleJobs lib rangeErr w)) e = count_list (processing w) e"
    and "count_list (failed (recoverStaleJobs lib rangeErr w)) e = count_list (failed w) e"
  using foldl_recoverJob_keeps [OF assms, of "(w, 0)" "processing w"]
  by (simp_all add: recoverStaleJobs_lists split: option.splits)

lemma recoveryRounds_keeps:
  assumes "json_Unmarshal lib e = Inl err"
  shows "recoveryRounds lib rounds w = Some w' \<Longrightarrow>
         count_list (processing w') e = count_list (processing w) e"
proof (induction rounds arbitrary: w)
  case Nil
  then show ?case by simp
next
  case (Cons r rs)
  show ?case
  proof (cases r)
    case RecoveryDone
    with Cons.prems show ?thesis by (auto simp add: logPrintf_def)
  next
    case (Tick rangeErr)
    let ?w1 = "recoverStaleJobs lib rangeErr (advance (5 * time_Minute) w)"
    from Cons.prems Tick have "recoveryRounds lib rs ?w1 = Some w'" by simp
    then have "count_list (processing w') e = count_list (processing ?w1) e"
      by (rule Cons.IH)
    also have "\<dots> = count_list (processing (advance (5 * time_Minute) w)) e"
      by (rule recoverStaleJobs_keeps(1) [OF assms])
    also have "\<dots> = count_list (processing w) e"
      by (simp add: advance_def)
    finally show ?thesis .
  qed
qed

lemma RecoveryLoop_keeps:
  assumes "json_Unmarshal lib e = Inl err" and "RecoveryLoop lib rounds w = Some w'"
  shows "count_list (processing w') e = count_list (processing w) e"
  using recoveryRounds_keeps [OF assms(1), of rounds "logPrintf LogRecoveryStarting w" w'] assms(2)
  by (simp add: RecoveryLoop_def logPrintf_def)

text \<open>
  C10. An entry of the processing list that cannot be parsed into a job is skipped by the
  recovery sweep: its round of the loop changes nothing (no removal, no push, no write to
  the status store), and after the whole sweep the entry is as often in the processing
  list and in the failed list as before, and in the pending list too unless the entry of a
  retried job happens to be the same text. So it stays in the processing list over every
  run of the recovery loop.
\<close>

theorem sweep_skips_undecodable:
  assumes "json_Unmarshal lib e = Inl err"
  shows "recoverJob lib (w, n) e = (w, n)
       \<and> count_list (processing (recoverStaleJobs lib rangeErr w)) e = count_list (processing w) e
       \<and> count_list (failed (recoverStaleJobs lib rangeErr w)) e = count_list (failed w) e
       \<and> ((\<forall>x \<in> set (processing w). \<forall>j. json_Unmarshal lib x = Inr j \<longrightarrow>
               marshalled lib (j\<lparr>RetryCount := RetryCount j + 1\<rparr>) \<noteq> e) \<longrightarrow>
            count_list (pending (recoverStaleJobs lib rangeErr w)) e = count_list (pending w) e)
       \<and> (RecoveryLoop lib rounds w = Some w' \<longrightarrow>
            count_list (processing w') e = count_list (processing w) e)"
proof -
  have p: "count_list (pending (recoverStaleJobs lib rangeErr w)) e = count_list (pending w) e"
    if "\<forall>x \<in> set (processing w). \<forall>j. json_Unmarshal lib x = Inr j \<longrightarrow>
               marshalled lib (j\<lparr>RetryCount := RetryCount j + 1\<rparr>) \<noteq> e"
    using foldl_recoverJob_keeps_pending [OF assms that, of "(w, 0)"]
    by (simp add: recoverStaleJobs_lists split: option.splits)
  show ?thesis
    using recoverJob_skips [OF assms] recoverStaleJobs_keeps [OF assms] p
      RecoveryLoop_keeps [OF assms]
    by blast
qed


theorem sweep_skips_undecodable_witness:
  "json_Unmarshal goLib entry_poison = Inl ''invalid JSON input''
   \<and> recoverJob goLib (world0\<lparr>processing := [entry_poison, entry42]\<rparr>, 0) entry_poison
       = (world0\<lparr>processing := [entry_poison, entry42]\<rparr>, 0)
   \<and> count_list (processing (recoverStaleJobs goLib None
          (world0\<lparr>processing := [entry_poison, entry42]\<rparr>))) entry_poison = 1
   \<and> count_list (failed (recoverStaleJobs goLib None
          (world0\<lparr>processing := [entry_poison, entry42]\<rparr>))) entry_poison = 0
   \<and> count_list (pending (recoverStaleJobs goLib None
          (world0\<lparr>processing := [entry_poison, entry42]\<rparr>))) entry_poison = 0
   \<and> RecoveryLoop goLib [Tick None, Tick None, RecoveryDone]
         (world0\<lparr>processing := [entry_poison, entry42]\<rparr>)
       = Some (the (RecoveryLoop goLib [Tick None, Tick None, RecoveryDone]
                      (world0\<lparr>processing := [entry_poison, entry42]\<rparr>)))
   \<and> count_list (processing (the (RecoveryLoop goLib [Tick None, Tick None, RecoveryDone]
                                     (world0\<lparr>processing := [entry_poison, entry42]\<rparr>))))
        entry_poison = 1"
proof -
  let ?w = "world0\<lparr>processing := [entry_poison, entry42]\<rparr>"
  have u: "json_Unmarshal goLib entry_poison = Inl ''invalid JSON input''" by code_simp
  have d: "json_Unmarshal goLib entry42 = Inr job42" by code_simp
  have m: "marshalled goLib (job42\<lparr>RetryCount := RetryCount job42 + 1\<rparr>) \<noteq> entry_poison"
    by code_simp
  have ne: "entry42 \<noteq> entry_poison" by code_simp
  have b: "\<forall>x \<in> set (processing ?w). \<forall>j. json_Unmarshal goLib x = Inr j \<longrightarrow>
             marshalled goLib (j\<lparr>RetryCount := RetryCount j + 1\<rparr>) \<noteq> entry_poison"
    using u d m by auto
  have l: "pending world0 = []" "failed world0 = []" by (simp_all add: world0_def)
  have r: "RecoveryLoop goLib [Tick None, Tick None, RecoveryDone] ?w
             = Some (the (RecoveryLoop goLib [Tick None, Tick None, RecoveryDone] ?w))"
    by (simp add: RecoveryLoop_def)
  show ?thesis
    using sweep_skips_undecodable [OF u, of ?w 0 None "[Tick None, Tick None, RecoveryDone]"
        "the (RecoveryLoop goLib [Tick None, Tick None, RecoveryDone] ?w)"] u b r l ne
    by simp
qed








end
